theory Spec2Isabelle
  imports Complex_Main "HOL-Library.Sublist"
begin

section \<open>The STFT engine's framing and metadata\<close>

text \<open>
  The repository's sources are the ctypes wrapper \<^verbatim>\<open>examples/stft_ctypes.py\<close> and the
  reference script \<^verbatim>\<open>examples/generate_scipy_stft.py\<close>. The engine they call
  (\<^verbatim>\<open>stft.c\<close>, compiled to \<^verbatim>\<open>libstft.so\<close>) is not among them, so its Framer and the
  metadata of its Result are modelled from the specification.
\<close>

subsection \<open>Framer\<close>

text \<open>
  Modelled from the spec: the engine's Framer (\<^verbatim>\<open>stft.c\<close> is missing). Section 4.2: the
  ordered frame start offsets \<open>0, H, 2H, \<dots>\<close> restricted to offsets with
  \<open>start + W \<le> L\<close>; no padding, frames that would overrun the signal are omitted. The
  walk over the offsets is a loop that steps by the hop size; the hop size is validated
  as positive before framing (sections 3 and 4.5), and a non-positive one emits nothing.
\<close>

function frame_starts :: "int \<Rightarrow> int \<Rightarrow> int \<Rightarrow> int \<Rightarrow> int list" where
  "frame_starts L W H start =
     (if 0 < H \<and> start + W \<le> L then start # frame_starts L W H (start + H) else [])"
  by pat_completeness auto
termination
  by (relation "measure (\<lambda>(L, W, H, start). nat (L - W - start + 1))") auto

declare frame_starts.simps [simp del]

definition frame_offsets :: "int \<Rightarrow> int \<Rightarrow> int \<Rightarrow> int list" where
  "frame_offsets L W H = frame_starts L W H 0"

definition frame_count_of :: "int \<Rightarrow> int \<Rightarrow> int \<Rightarrow> int" where
  "frame_count_of L W H = int (length (frame_offsets L W H))"

subsection \<open>Configuration and Result metadata\<close>

text \<open>
  \<^verbatim>\<open>class STFTParameters(Structure)\<close> of the wrapper: the configuration handed to the
  engine.
\<close>

record stft_parameters =
  window_size :: int
  hop_size :: int
  sample_rate :: real
  window_type :: int

datatype failure_kind = InvalidConfiguration | InsufficientSignalLength

record result_metadata =
  res_frame_count :: int
  res_frequency_bin_count :: int
  res_frame_time_step :: real
  res_frequency_resolution :: real

text \<open>
  Modelled from the spec: the Engine Facade's validation and the metadata of its Result
  (\<^verbatim>\<open>stft.c\<close> is missing). Section 3: the invariant \<open>window_size > 0\<close>, \<open>hop_size > 0\<close>,
  \<open>sample_rate > 0\<close>, frame time step \<open>hop_size / sample_rate\<close>, frequency resolution
  \<open>sample_rate / window_size\<close>; section 4.3: \<open>frequency_bin_count = floor(window_size/2) + 1\<close>;
  section 4.5: with no frame the facade either fails with InsufficientSignalLength or
  is done with an empty spectrogram, a policy fixed once (the flag \<open>empty_fails\<close>).
\<close>

definition compute_stft_metadata ::
  "bool \<Rightarrow> int \<Rightarrow> stft_parameters \<Rightarrow> failure_kind + result_metadata" where
  "compute_stft_metadata empty_fails L cfg =
     (if window_size cfg \<le> 0 \<or> hop_size cfg \<le> 0 \<or> sample_rate cfg \<le> 0
      then Inl InvalidConfiguration
      else if frame_count_of L (window_size cfg) (hop_size cfg) = 0 \<and> empty_fails
      then Inl InsufficientSignalLength
      else Inr \<lparr>res_frame_count = frame_count_of L (window_size cfg) (hop_size cfg),
                res_frequency_bin_count = window_size cfg div 2 + 1,
                res_frame_time_step = real_of_int (hop_size cfg) / sample_rate cfg,
                res_frequency_resolution = sample_rate cfg / real_of_int (window_size cfg)\<rparr>)"

text \<open>
  The test signal of both scripts: \<^verbatim>\<open>t = np.arange(0, 2.0, 1/fs)\<close> with \<^verbatim>\<open>fs = 125\<close>.
  numpy's \<^verbatim>\<open>arange(start, stop, step)\<close> has \<open>ceil((stop - start) / step)\<close> elements.
  numpy takes the quotient in binary64, the definition takes it over the real numbers:
  the two agree at the scripts' call (250 elements) and may differ by one where the
  rounded quotient falls on the other side of an integer.
\<close>

definition arange_length :: "real \<Rightarrow> real \<Rightarrow> real \<Rightarrow> nat" where
  "arange_length start stop step = nat \<lceil>(stop - start) / step\<rceil>"

section \<open>The reference script's decibel conversion\<close>

text \<open>
  \<^verbatim>\<open>generate_scipy_stft.py\<close>, lines 21 and 22:
  \<^verbatim>\<open>magnitude = np.abs(Zxx)\<close> and \<^verbatim>\<open>db = 20 * np.log10(magnitude + 1e-10)\<close>,
  both elementwise on the two-dimensional array \<^verbatim>\<open>Zxx\<close>. The arithmetic is that of the
  real numbers the expressions denote; the rounding of binary64 is not modelled.
\<close>

definition magnitude :: "complex list list \<Rightarrow> real list list" where
  "magnitude Zxx = map (map cmod) Zxx"

definition db_value :: "real \<Rightarrow> real" where
  "db_value m = 20 * log 10 (m + 1 / 10 ^ 10)"

definition db :: "real list list \<Rightarrow> real list list" where
  "db mag = map (map db_value) mag"

section \<open>The ctypes wrapper\<close>

text \<open>
  \<^verbatim>\<open>examples/stft_ctypes.py\<close>. The wrapper talks to two worlds: numpy arrays on the
  Python side and the handles the C library returns. Both are made explicit: arrays live
  in a heap (a list, an array's reference is its index), and every call into the library
  is appended to a log.
\<close>

subsection \<open>Python and numpy values\<close>

datatype error =
    RuntimeError string
  | UnicodeDecodeError
  | ValueError string
  | OSError

text \<open>The element types of real-valued numpy arrays.\<close>

datatype dtype =
    Bool8 | Int8 | Int16 | Int32 | Int64 | UInt8 | UInt16 | UInt32 | UInt64
  | Float16 | Float32 | Float64

text \<open>
  A one-dimensional array (the docstring's input signal): its element type, its
  \<^verbatim>\<open>flags['C_CONTIGUOUS']\<close> and its elements in index order.
\<close>

record ndarray =
  dtype :: dtype
  c_contiguous :: bool
  elems :: "real list"

text \<open>
  The \<^verbatim>\<open>signal\<close> argument: a Python sequence of numbers, or a reference to an array of
  the heap. A reference always points into the heap.
\<close>

datatype py_signal = PySeq "real list" | NdArray nat

fun valid_signal :: "ndarray list \<Rightarrow> py_signal \<Rightarrow> bool" where
  "valid_signal h (PySeq xs) = True"
| "valid_signal h (NdArray p) = (p < length h)"

definition alloc :: "ndarray list \<Rightarrow> ndarray \<Rightarrow> nat \<times> ndarray list" where
  "alloc h a = (length h, h @ [a])"

text \<open>
  \<^verbatim>\<open>np.array(signal, dtype=np.float32)\<close>, \<^verbatim>\<open>signal.astype(np.float32)\<close> and
  \<^verbatim>\<open>np.ascontiguousarray(signal)\<close> each build a new array; a new one-dimensional array
  is contiguous. The parameter \<open>f32\<close> is numpy's conversion of a number to binary32,
  whose rounding is not modelled.
\<close>

definition np_array_float32 :: "(real \<Rightarrow> real) \<Rightarrow> real list \<Rightarrow> ndarray" where
  "np_array_float32 f32 xs = \<lparr>dtype = Float32, c_contiguous = True, elems = map f32 xs\<rparr>"

definition astype_float32 :: "(real \<Rightarrow> real) \<Rightarrow> ndarray \<Rightarrow> ndarray" where
  "astype_float32 f32 a = \<lparr>dtype = Float32, c_contiguous = True, elems = map f32 (elems a)\<rparr>"

definition ascontiguousarray :: "ndarray \<Rightarrow> ndarray" where
  "ascontiguousarray a = a\<lparr>c_contiguous := True\<rparr>"

text \<open>Lines 87 to 90: \<^verbatim>\<open>Convert input to float32\<close>.\<close>

definition to_float32 ::
  "(real \<Rightarrow> real) \<Rightarrow> ndarray list \<Rightarrow> py_signal \<Rightarrow> nat \<times> ndarray list" where
  "to_float32 f32 h sig =
     (case sig of
        PySeq xs \<Rightarrow> alloc h (np_array_float32 f32 xs)
      | NdArray p \<Rightarrow>
          if dtype (h ! p) \<noteq> Float32 then alloc h (astype_float32 f32 (h ! p)) else (p, h))"

text \<open>Lines 93 and 94: \<^verbatim>\<open>Ensure C-contiguous\<close>.\<close>

definition to_contiguous :: "ndarray list \<Rightarrow> nat \<Rightarrow> nat \<times> ndarray list" where
  "to_contiguous h p =
     (if \<not> c_contiguous (h ! p) then alloc h (ascontiguousarray (h ! p)) else (p, h))"

text \<open>
  A Python integer stored into a ctypes \<^verbatim>\<open>c_int\<close> is cut to 32 bits, two's complement,
  with no overflow check.
\<close>

definition c_int :: "int \<Rightarrow> int" where
  "c_int x = (x + 2 ^ 31) mod 2 ^ 32 - 2 ^ 31"

subsection \<open>The library's structures and functions\<close>

datatype pointer = NULL | Ptr nat

text \<open>
  \<^verbatim>\<open>class STFTResult(Structure)\<close>. The \<^verbatim>\<open>c_char_p\<close> field \<^verbatim>\<open>message\<close> reads as
  \<^verbatim>\<open>None\<close> for a null pointer and as the bytes of the C string otherwise.
\<close>

record stft_result =
  success :: bool
  spectrogram_data :: pointer
  frame_count :: int
  frequency_bin_count :: int
  frame_time :: real
  frequency_resolution :: real
  message :: "string option"

text \<open>
  What \<^verbatim>\<open>stft_get_power_spectrogram_db\<close> returns, a \<^verbatim>\<open>float **\<close>: the row pointer of
  each frame (\<open>None\<close> for a null row) and the values behind it.
\<close>

type_synonym power_rows = "nat \<Rightarrow> (nat \<Rightarrow> real) option"

text \<open>
  The loaded library, \<^verbatim>\<open>self.lib\<close>, with the signatures of
  \<^verbatim>\<open>_setup_function_signatures\<close>. \<^verbatim>\<open>perform_stft\<close> receives the input buffer
  (a \<^verbatim>\<open>float *\<close>, not \<^verbatim>\<open>const\<close>), its length and the parameters, and returns the result
  pointer, the structure behind it, and the contents of the input buffer after the call.
  The two cleanup functions return nothing; calling them is recorded in the log.
\<close>

record c_library =
  lib_perform_stft ::
    "real list \<Rightarrow> int \<Rightarrow> stft_parameters \<Rightarrow> (pointer \<times> stft_result) \<times> real list"
  lib_get_power_spectrogram_db :: "pointer \<Rightarrow> stft_result \<Rightarrow> pointer \<times> power_rows"

record stft_wrapper =
  lib :: c_library

datatype call =
    Perform_stft ndarray int stft_parameters
  | Get_power_spectrogram_db pointer
  | Free_result pointer
  | Free_2d_array pointer int

record py_state =
  heap :: "ndarray list"
  calls :: "call list"

definition log_calls :: "py_state \<Rightarrow> call list \<Rightarrow> py_state" where
  "log_calls st cs = st\<lparr>calls := calls st @ cs\<rparr>"

text \<open>
  Modelled from the spec: the engine's effect on its input (\<^verbatim>\<open>stft.c\<close> is missing).
  Section 5: the engine is side-effect-free on its inputs, the signal is read-only for
  it. Its functions are functions of their arguments: no state of the engine survives a
  call.
\<close>

definition read_only_engine :: "c_library \<Rightarrow> bool" where
  "read_only_engine l = (\<forall>buf n ps. snd (lib_perform_stft l buf n ps) = buf)"

subsection \<open>Decoding the failure message\<close>

text \<open>
  \<^verbatim>\<open>result.message.decode('utf-8')\<close>. A Python string is represented by its UTF-8
  bytes, so decoding returns the bytes when they are well-formed UTF-8 and raises
  \<^verbatim>\<open>UnicodeDecodeError\<close> otherwise. \<open>utf8_valid k lo hi\<close> reads a byte string with \<open>k\<close>
  continuation bytes pending, the next of which must lie in \<open>lo..hi\<close>.
\<close>

fun utf8_valid :: "nat \<Rightarrow> nat \<Rightarrow> nat \<Rightarrow> string \<Rightarrow> bool" where
  "utf8_valid k lo hi [] = (k = 0)"
| "utf8_valid k lo hi (c # cs) =
     (let b = (of_char c :: nat) in
      if k = 0 then
        (if b < 0x80 then utf8_valid 0 0x80 0xBF cs
         else if 0xC2 \<le> b \<and> b \<le> 0xDF then utf8_valid 1 0x80 0xBF cs
         else if b = 0xE0 then utf8_valid 2 0xA0 0xBF cs
         else if b = 0xED then utf8_valid 2 0x80 0x9F cs
         else if 0xE1 \<le> b \<and> b \<le> 0xEF then utf8_valid 2 0x80 0xBF cs
         else if b = 0xF0 then utf8_valid 3 0x90 0xBF cs
         else if b = 0xF4 then utf8_valid 3 0x80 0x8F cs
         else if 0xF1 \<le> b \<and> b \<le> 0xF3 then utf8_valid 3 0x80 0xBF cs
         else False)
      else (lo \<le> b \<and> b \<le> hi \<and> utf8_valid (k - 1) 0x80 0xBF cs))"

definition decode_utf8 :: "string \<Rightarrow> error + string" where
  "decode_utf8 bs = (if utf8_valid 0 0x80 0xBF bs then Inr bs else Inl UnicodeDecodeError)"

text \<open>
  Line 114: \<^verbatim>\<open>result.message.decode('utf-8') if result.message else "Unknown error"\<close>.
  A null message and an empty one are both false.
\<close>

definition error_message_of :: "string option \<Rightarrow> error + string" where
  "error_message_of msg =
     (case msg of
        None \<Rightarrow> Inr ''Unknown error''
      | Some bs \<Rightarrow> if bs = [] then Inr ''Unknown error'' else decode_utf8 bs)"

subsection \<open>Copying the power spectrogram\<close>

text \<open>
  Lines 125 to 129. \<^verbatim>\<open>np.zeros\<close> raises \<^verbatim>\<open>ValueError\<close> for a negative dimension;
  \<^verbatim>\<open>power_ptr[frame][bin]\<close> raises \<^verbatim>\<open>ValueError\<close> when the row pointer is null, and
  is not evaluated at all when there is no bin. A \<^verbatim>\<open>c_float\<close> read from the library is
  stored unchanged into the \<^verbatim>\<open>float32\<close> array. Reads behind the memory the library
  allocated, exhausted memory and interrupts are not modelled.
\<close>

definition read_row :: "(nat \<Rightarrow> real) option \<Rightarrow> nat \<Rightarrow> error + real list" where
  "read_row row n =
     (if n = 0 then Inr []
      else case row of
             None \<Rightarrow> Inl (ValueError ''NULL pointer access'')
           | Some r \<Rightarrow> Inr (map r [0..<n]))"

fun read_rows :: "power_rows \<Rightarrow> nat list \<Rightarrow> nat \<Rightarrow> error + real list list" where
  "read_rows pw [] n = Inr []"
| "read_rows pw (frame # frames) n =
     (case read_row (pw frame) n of
        Inl e \<Rightarrow> Inl e
      | Inr r \<Rightarrow>
          (case read_rows pw frames n of
             Inl e \<Rightarrow> Inl e
           | Inr rs \<Rightarrow> Inr (r # rs)))"

definition build_spectrogram :: "int \<Rightarrow> int \<Rightarrow> power_rows \<Rightarrow> error + real list list" where
  "build_spectrogram fc fbc pw =
     (if fc < 0 \<or> fbc < 0 then Inl (ValueError ''negative dimensions are not allowed'')
      else read_rows pw [0..<nat fc] (nat fbc))"

subsection \<open>The result dictionary\<close>

datatype py_value = PyArray2 dtype "real list list" | PyInt int | PyFloat real

type_synonym py_dict = "(string \<times> py_value) list"

text \<open>Lines 132 to 138.\<close>

definition result_dict :: "real list list \<Rightarrow> stft_result \<Rightarrow> py_dict" where
  "result_dict spectrogram result =
     [(''spectrogram'', PyArray2 Float32 spectrogram),
      (''frame_count'', PyInt (frame_count result)),
      (''frequency_bin_count'', PyInt (frequency_bin_count result)),
      (''frame_time'', PyFloat (frame_time result)),
      (''frequency_resolution'', PyFloat (frequency_resolution result))]"

subsection \<open>\<^verbatim>\<open>STFTWrapper.perform_stft\<close>\<close>

text \<open>
  Lines 86 to 106: the signal is converted, the parameter structure is filled, and the
  library's \<^verbatim>\<open>perform_stft\<close> is called with the address of the array's data and
  \<^verbatim>\<open>len(signal)\<close>. The library works on the very buffer of the array it is handed:
  what it leaves there is the array's new contents.
\<close>

definition make_parameters :: "int \<Rightarrow> int \<Rightarrow> real \<Rightarrow> int \<Rightarrow> stft_parameters" where
  "make_parameters wsz hop sr wtype =
     \<lparr>window_size = c_int wsz, hop_size = c_int hop, sample_rate = sr, window_type = c_int wtype\<rparr>"

definition call_engine ::
  "(real \<Rightarrow> real) \<Rightarrow> stft_wrapper \<Rightarrow> py_state \<Rightarrow> py_signal \<Rightarrow> int \<Rightarrow> int \<Rightarrow> real \<Rightarrow> int
   \<Rightarrow> (pointer \<times> stft_result) \<times> py_state" where
  "call_engine f32 self st sig wsz hop sr wtype =
     (let (p0, h0) = to_float32 f32 (heap st) sig;
          (p, h) = to_contiguous h0 p0;
          params = make_parameters wsz hop sr wtype;
          input = h ! p;
          n = c_int (int (length (elems input)));
          (reply, written) = lib_perform_stft (lib self) (elems input) n params
      in (reply, \<lparr>heap = h[p := input\<lparr>elems := written\<rparr>],
                  calls = calls st @ [Perform_stft input n params]\<rparr>))"

text \<open>
  Lines 108 to 144: what the wrapper does with the library's answer. The result is what
  the caller sees (an exception or the dictionary) and the state afterwards. An
  exception leaves the method at once: whatever the source does after the raising line
  is not done.
\<close>

definition STFTWrapper_perform_stft ::
  "(real \<Rightarrow> real) \<Rightarrow> stft_wrapper \<Rightarrow> py_state \<Rightarrow> py_signal \<Rightarrow> int \<Rightarrow> int \<Rightarrow> real \<Rightarrow> int
   \<Rightarrow> (error + py_dict) \<times> py_state" where
  "STFTWrapper_perform_stft f32 self st sig wsz hop sr wtype =
     (let ((result_ptr, result), st1) = call_engine f32 self st sig wsz hop sr wtype
      in if result_ptr = NULL then (Inl (RuntimeError ''STFT computation failed''), st1)
         else if \<not> success result then
           (case error_message_of (message result) of
              Inl e \<Rightarrow> (Inl e, st1)
            | Inr error_msg \<Rightarrow>
                (Inl (RuntimeError (''STFT failed: '' @ error_msg)),
                 log_calls st1 [Free_result result_ptr]))
         else
           (let (power_ptr, pw) = lib_get_power_spectrogram_db (lib self) result_ptr result;
                st2 = log_calls st1 [Get_power_spectrogram_db result_ptr]
            in if power_ptr = NULL
               then (Inl (RuntimeError ''Failed to get power spectrogram''),
                     log_calls st2 [Free_result result_ptr])
               else
                 (case build_spectrogram (frame_count result) (frequency_bin_count result) pw of
                    Inl e \<Rightarrow> (Inl e, st2)
                  | Inr spectrogram \<Rightarrow>
                      (Inr (result_dict spectrogram result),
                       log_calls st2 [Free_2d_array power_ptr (frame_count result),
                                      Free_result result_ptr]))))"

text \<open>
  Lines 36 to 47 and 147 to 163: loading the library (\<^verbatim>\<open>ctypes.CDLL\<close> raises
  \<^verbatim>\<open>OSError\<close> when it cannot) and the convenience function, which builds a wrapper for
  each call. The module's docstring calls the wrapper an alternative that
  \<^verbatim>\<open>doesn't require compilation\<close>; the code does need the compiled \<^verbatim>\<open>libstft.so\<close>:
  without it the constructor prints the \<^verbatim>\<open>gcc\<close> command and raises again.
\<close>

definition STFTWrapper_init :: "(string \<Rightarrow> c_library option) \<Rightarrow> string \<Rightarrow> error + stft_wrapper" where
  "STFTWrapper_init cdll lib_path =
     (case cdll lib_path of None \<Rightarrow> Inl OSError | Some l \<Rightarrow> Inr \<lparr>lib = l\<rparr>)"

definition perform_stft ::
  "(real \<Rightarrow> real) \<Rightarrow> (string \<Rightarrow> c_library option) \<Rightarrow> string \<Rightarrow> py_state \<Rightarrow> py_signal
   \<Rightarrow> int \<Rightarrow> int \<Rightarrow> real \<Rightarrow> int \<Rightarrow> (error + py_dict) \<times> py_state" where
  "perform_stft f32 cdll lib_path st sig wsz hop sr wtype =
     (case STFTWrapper_init cdll lib_path of
        Inl e \<Rightarrow> (Inl e, st)
      | Inr wrapper \<Rightarrow> STFTWrapper_perform_stft f32 wrapper st sig wsz hop sr wtype)"

subsection \<open>Saving a grid as CSV\<close>

text \<open>
  \<^verbatim>\<open>np.savetxt(fname, X, delimiter=',')\<close> writes each row of the two-dimensional array
  \<open>X\<close> on a line of its own, the formatted values joined by the delimiter. Both scripts
  use the format \<^verbatim>\<open>'%.18e'\<close> (the wrapper names it, the reference script takes the
  default); formatting a number is the parameter \<open>fmt\<close>.
\<close>

fun join :: "string \<Rightarrow> string list \<Rightarrow> string" where
  "join d [] = []"
| "join d [x] = x"
| "join d (x # y # ys) = x @ d @ join d (y # ys)"

definition savetxt :: "(real \<Rightarrow> string) \<Rightarrow> string \<Rightarrow> real list list \<Rightarrow> string" where
  "savetxt fmt delimiter X = concat (map (\<lambda>row. join delimiter (map fmt row) @ [CHR 0x0A]) X)"

text \<open>
  Line 183 of the wrapper: \<^verbatim>\<open>np.savetxt(..., result['spectrogram'], delimiter=',', ...)\<close>.
\<close>

definition wrapper_csv :: "(real \<Rightarrow> string) \<Rightarrow> py_dict \<Rightarrow> string option" where
  "wrapper_csv fmt d =
     (case map_of d ''spectrogram'' of
        Some (PyArray2 t g) \<Rightarrow> Some (savetxt fmt '','' g)
      | _ \<Rightarrow> None)"

text \<open>
  The reference script. \<^verbatim>\<open>scipy.signal.stft\<close> returns \<^verbatim>\<open>Zxx\<close> with the frequency axis
  first and the segment times on the last axis; only this layout of the returned array
  is modelled, the coefficient of segment \<open>m\<close> at bin \<open>k\<close> is the parameter \<open>coef m k\<close>.
  Line 25 saves \<^verbatim>\<open>db\<close>, which has the shape of \<^verbatim>\<open>Zxx\<close>.
\<close>

definition scipy_stft_layout :: "(nat \<Rightarrow> nat \<Rightarrow> complex) \<Rightarrow> nat \<Rightarrow> nat \<Rightarrow> complex list list" where
  "scipy_stft_layout coef nfreq nseg = map (\<lambda>k. map (\<lambda>m. coef m k) [0..<nseg]) [0..<nfreq]"

definition oracle_csv :: "(real \<Rightarrow> string) \<Rightarrow> complex list list \<Rightarrow> string" where
  "oracle_csv fmt Zxx = savetxt fmt '','' (db (magnitude Zxx))"

subsection \<open>Notions used in the statements\<close>

text \<open>
  The elements of the array whose buffer the library is handed: the caller's own
  elements when the caller's array is already \<^verbatim>\<open>float32\<close>, their conversions otherwise.
\<close>

definition input_elems :: "(real \<Rightarrow> real) \<Rightarrow> ndarray list \<Rightarrow> py_signal \<Rightarrow> real list" where
  "input_elems f32 h sig =
     (case sig of
        PySeq xs \<Rightarrow> map f32 xs
      | NdArray p \<Rightarrow> if dtype (h ! p) = Float32 then elems (h ! p) else map f32 (elems (h ! p)))"

text \<open>
  The caller's array needs no conversion, and the library is handed the caller's own
  buffer.
\<close>

definition passed_through :: "ndarray list \<Rightarrow> py_signal \<Rightarrow> bool" where
  "passed_through h sig =
     (case sig of
        PySeq xs \<Rightarrow> False
      | NdArray p \<Rightarrow> dtype (h ! p) = Float32 \<and> c_contiguous (h ! p))"

subsection \<open>Libraries with fixed answers\<close>

text \<open>
  Stand-ins for \<^verbatim>\<open>libstft.so\<close> in the worked instances: a library that answers every
  call with the given result pointer, result structure and power pointer and leaves its
  input alone (its power grid holds the bin index in every frame), and one that clears
  the buffer it is handed and returns a null result.
\<close>

definition fixture_result :: "bool \<Rightarrow> string option \<Rightarrow> stft_result" where
  "fixture_result ok msg =
     \<lparr>success = ok, spectrogram_data = (if ok then Ptr 2 else NULL),
      frame_count = (if ok then 1 else 0), frequency_bin_count = (if ok then 2 else 0),
      frame_time = 31 / 125, frequency_resolution = 125 / 62, message = msg\<rparr>"

definition fixture_lib :: "pointer \<Rightarrow> stft_result \<Rightarrow> pointer \<Rightarrow> c_library" where
  "fixture_lib rp r pp =
     \<lparr>lib_perform_stft = (\<lambda>buf n ps. ((rp, r), buf)),
      lib_get_power_spectrogram_db = (\<lambda>q s. (pp, \<lambda>frame. Some (\<lambda>bin. real bin)))\<rparr>"

definition overwriting_lib :: c_library where
  "overwriting_lib =
     \<lparr>lib_perform_stft = (\<lambda>buf n ps. ((NULL, fixture_result False None), map (\<lambda>x. 0) buf)),
      lib_get_power_spectrogram_db = (\<lambda>q s. (NULL, \<lambda>frame. None))\<rparr>"

section \<open>The engine's transform and the reference transform\<close>

subsection \<open>The engine\<close>

text \<open>
  Modelled from the spec: the engine's Window Generator (\<^verbatim>\<open>stft.c\<close> is missing).
  Section 4.1: for Hann, \<open>weight[n] = 0.5 \<cdot> (1 - cos (2\<pi> \<cdot> n / (window_size - 1)))\<close> for
  \<open>n\<close> in \<open>[0, window_size - 1]\<close>, and the single weight 1 for \<open>window_size = 1\<close>.
\<close>

definition hann_window :: "nat \<Rightarrow> real list" where
  "hann_window W =
     (if W = 1 then [1]
      else map (\<lambda>n. 0.5 * (1 - cos (2 * pi * real n / real (W - 1)))) [0..<W])"

text \<open>
  Modelled from the spec: the Frame of section 3 (\<^verbatim>\<open>stft.c\<close> is missing), the
  \<open>window_size\<close> samples of the signal from the frame's start offset on.
\<close>

definition frame :: "real list \<Rightarrow> nat \<Rightarrow> nat \<Rightarrow> real list" where
  "frame x start W = take W (drop start x)"

text \<open>
  Modelled from the spec: the engine's Frame Transformer (\<^verbatim>\<open>stft.c\<close> is missing).
  Section 4.3: the elementwise product of frame and window, then the forward discrete
  Fourier transform of that real sequence with no scaling (the sum-based convention),
  of which the non-redundant half is kept: \<open>floor (window_size / 2) + 1\<close> bins.
\<close>

definition windowed :: "real list \<Rightarrow> real list \<Rightarrow> real list" where
  "windowed w fr = map2 (*) fr w"

definition dft :: "real list \<Rightarrow> nat \<Rightarrow> complex" where
  "dft xs k =
     (\<Sum>n<length xs. of_real (xs ! n) * cis (- (2 * pi * real k * real n / real (length xs))))"

definition frame_spectrum :: "real list \<Rightarrow> real list \<Rightarrow> complex list" where
  "frame_spectrum w fr = map (dft (windowed w fr)) [0..<length w div 2 + 1]"

text \<open>
  Modelled from the spec: the engine's Spectrogram Assembler and Facade (\<^verbatim>\<open>stft.c\<close>
  is missing). Sections 3, 4.4 and 4.5: one row per frame, in frame order, one column per
  bin; the decibel view is \<open>20 \<cdot> log10 (magnitude + \<epsilon>)\<close> with \<open>\<epsilon> = 1e-10\<close>, the
  magnitude being the modulus of the coefficient. The only window type is Hann; the
  configuration is validated as in \<open>compute_stft_metadata\<close>.
\<close>

definition engine_spectrogram :: "real list \<Rightarrow> real list \<Rightarrow> nat \<Rightarrow> complex list list" where
  "engine_spectrogram w x H =
     map (\<lambda>s. frame_spectrum w (frame x (nat s) (length w)))
       (frame_offsets (int (length x)) (int (length w)) (int H))"

definition engine_db :: "real list \<Rightarrow> real list \<Rightarrow> nat \<Rightarrow> real list list" where
  "engine_db w x H = map (map (\<lambda>z. db_value (cmod z))) (engine_spectrogram w x H)"

definition engine_db_grid :: "real list \<Rightarrow> stft_parameters \<Rightarrow> real list list" where
  "engine_db_grid x cfg =
     engine_db (hann_window (nat (window_size cfg))) x (nat (hop_size cfg))"

subsection \<open>The reference script's transform\<close>

text \<open>
  Lines 10 to 18 of \<^verbatim>\<open>generate_scipy_stft.py\<close>:
  \<^verbatim>\<open>stft(x, fs=fs, nperseg=62, noverlap=62 - 31, nfft=62, padded=False, boundary=None)\<close>.
  As scipy documents \<^verbatim>\<open>scipy.signal.stft\<close>: the window defaults to \<^verbatim>\<open>'hann'\<close>, which
  \<^verbatim>\<open>get_window\<close> builds periodic, \<open>w[n] = 0.5 - 0.5 \<cdot> cos (2\<pi> \<cdot> n / N)\<close>; nothing is
  detrended; with no boundary extension and no padding the segments start at the
  multiples of \<open>nperseg - noverlap\<close> and there are
  \<open>(length x - noverlap) div (nperseg - noverlap)\<close> of them; each windowed segment is
  transformed (\<open>nfft = nperseg\<close>, one-sided: \<open>nfft div 2 + 1\<close> bins) and, under the default
  \<^verbatim>\<open>scaling='spectrum'\<close>, divided by the absolute sum of the window. The result has
  the frequency axis first. A signal shorter than one segment, for which scipy shortens
  the segment, has no segment here.
\<close>

definition scipy_hann :: "nat \<Rightarrow> real list" where
  "scipy_hann N = map (\<lambda>n. 0.5 - 0.5 * cos (2 * pi * real n / real N)) [0..<N]"

definition scipy_stft :: "real list \<Rightarrow> real list \<Rightarrow> nat \<Rightarrow> complex list list" where
  "scipy_stft w x noverlap =
     scipy_stft_layout
       (\<lambda>m k. dft (windowed w (frame x (m * (length w - noverlap)) (length w))) k
                / of_real \<bar>sum_list w\<bar>)
       (length w div 2 + 1)
       ((length x - noverlap) div (length w - noverlap))"

definition reference_stft :: "real list \<Rightarrow> complex list list" where
  "reference_stft x = scipy_stft (scipy_hann 62) x (62 - 31)"

text \<open>Lines 21 and 22: the decibel grid the script saves.\<close>

definition reference_db :: "real list \<Rightarrow> real list list" where
  "reference_db x = db (magnitude (reference_stft x))"

subsection \<open>Agreement of two decibel grids\<close>

text \<open>
  The grid \<open>A\<close> (frames by bins) and the grid \<open>B\<close> (bins by frames) agree within the
  relative tolerance \<open>tol\<close>: every cell of \<open>A\<close> has its transposed cell in \<open>B\<close>, and
  the two differ by at most \<open>tol\<close> times the cell of \<open>B\<close>.
\<close>

definition grids_agree :: "real \<Rightarrow> real list list \<Rightarrow> real list list \<Rightarrow> bool" where
  "grids_agree tol A B =
     (\<forall>m<length A. \<forall>k<length (A ! m).
        k < length B \<and> m < length (B ! k) \<and> \<bar>A ! m ! k - B ! k ! m\<bar> \<le> tol * \<bar>B ! k ! m\<bar>)"

section \<open>Framing: closed form\<close>

lemma frame_starts_closed:
  "0 < H \<Longrightarrow>
   frame_starts L W H s = map (\<lambda>k. s + int k * H) [0..<nat ((L - W - s) div H + 1)]"
proof (induction L W H s rule: frame_starts.induct)
  case (1 L W H s)
  show ?case
  proof (cases "s + W \<le> L")
    case False
    with \<open>0 < H\<close> have "(L - W - s) div H < 0"
      by (simp add: div_neg_pos_less0)
    then have "nat ((L - W - s) div H + 1) = 0" by simp
    moreover from False have "frame_starts L W H s = []"
      by (simp add: frame_starts.simps)
    ultimately show ?thesis by simp
  next
    case True
    define n where "n = nat ((L - W - s) div H)"
    from True \<open>0 < H\<close> have nonneg: "0 \<le> (L - W - s) div H"
      by (simp add: pos_imp_zdiv_nonneg_iff)
    have "(L - W - s + (- 1) * H) div H = - 1 + (L - W - s) div H"
      using \<open>0 < H\<close> by (subst div_mult_self1) simp_all
    then have shift: "(L - W - (s + H)) div H = (L - W - s) div H - 1"
      by (simp add: algebra_simps)
    have len: "nat ((L - W - s) div H + 1) = Suc n"
      using nonneg by (simp add: n_def nat_add_distrib)
    have len': "nat ((L - W - (s + H)) div H + 1) = n"
      using shift by (simp add: n_def)
    have "frame_starts L W H s = s # frame_starts L W H (s + H)"
      using True \<open>0 < H\<close> by (simp add: frame_starts.simps)
    also have "frame_starts L W H (s + H) = map (\<lambda>k. s + H + int k * H) [0..<n]"
      using "1.IH" True \<open>0 < H\<close> len' by simp
    also have "s # map (\<lambda>k. s + H + int k * H) [0..<n] = map (\<lambda>k. s + int k * H) [0..<Suc n]"
      by (simp add: upt_conv_Cons map_Suc_upt [symmetric] algebra_simps del: upt_Suc)
    finally show ?thesis using len by simp
  qed
qed

lemma frame_offsets_closed:
  "0 < H \<Longrightarrow> frame_offsets L W H = map (\<lambda>k. int k * H) [0..<nat ((L - W) div H + 1)]"
  using frame_starts_closed [of H L W 0] by (simp add: frame_offsets_def)

lemma frame_count_closed:
  "0 < H \<Longrightarrow> frame_count_of L W H = (if W \<le> L then (L - W) div H + 1 else 0)"
proof -
  assume H: "0 < H"
  have len: "frame_count_of L W H = int (nat ((L - W) div H + 1))"
    using H by (simp add: frame_count_of_def frame_offsets_closed)
  show ?thesis
  proof (cases "W \<le> L")
    case True
    with H have "0 \<le> (L - W) div H"
      by (simp add: pos_imp_zdiv_nonneg_iff)
    with True len show ?thesis by simp
  next
    case False
    with H have "(L - W) div H < 0"
      by (simp add: div_neg_pos_less0)
    with False len show ?thesis by simp
  qed
qed

lemma le_div_iff_int:
  fixes H a k :: int
  assumes "0 < H"
  shows "k \<le> a div H \<longleftrightarrow> k * H \<le> a"
proof
  assume "k \<le> a div H"
  then have "k * H \<le> (a div H) * H"
    using assms by (simp add: mult_right_mono)
  also have "\<dots> = a - a mod H"
    by (simp add: minus_mod_eq_div_mult)
  also have "\<dots> \<le> a"
    using assms by simp
  finally show "k * H \<le> a" .
next
  assume "k * H \<le> a"
  then have "(k * H) div H \<le> a div H"
    using assms by (rule zdiv_mono1)
  then show "k \<le> a div H"
    using assms by simp
qed

lemma frame_offsets_set:
  assumes "0 < H"
  shows "set (frame_offsets L W H) = {s. \<exists>k::nat. s = int k * H \<and> s + W \<le> L}"
proof -
  have iff: "k < nat ((L - W) div H + 1) \<longleftrightarrow> int k * H + W \<le> L" for k :: nat
  proof -
    have "k < nat ((L - W) div H + 1) \<longleftrightarrow> int k \<le> (L - W) div H"
      by auto
    also have "\<dots> \<longleftrightarrow> int k * H \<le> L - W"
      using assms by (rule le_div_iff_int)
    finally show ?thesis by (simp add: algebra_simps)
  qed
  show ?thesis
    using assms by (auto simp: frame_offsets_closed iff)
qed

text \<open>
  Claim C1. For a positive window size \<open>W\<close> and a positive hop size \<open>H\<close>, and a signal
  of any length \<open>L\<close>, the Framer emits exactly the offsets \<open>0, H, 2H, \<dots>\<close> whose frame
  fits (\<open>start + W \<le> L\<close>), in increasing order; the number of frames is
  \<open>max 0 (floor ((L - W) / H) + 1)\<close> when \<open>L \<ge> W\<close> and \<open>0\<close> otherwise; a signal of length
  exactly \<open>W\<close> gives one frame and a signal of length \<open>W - 1\<close> gives none.
\<close>

theorem framer_offsets_and_count:
  assumes "0 < W" and "0 < H"
  shows "set (frame_offsets L W H) = {s. \<exists>k::nat. s = int k * H \<and> s + W \<le> L}
       \<and> frame_offsets L W H = map (\<lambda>k. int k * H) [0..<nat (frame_count_of L W H)]
       \<and> frame_count_of L W H = (if W \<le> L then max 0 ((L - W) div H + 1) else 0)
       \<and> frame_count_of W W H = 1
       \<and> frame_count_of (W - 1) W H = 0"
proof -
  have count: "frame_count_of L W H = (if W \<le> L then (L - W) div H + 1 else 0)" for L
    using \<open>0 < H\<close> by (rule frame_count_closed)
  have nonneg: "0 \<le> (L - W) div H" if "W \<le> L"
    using that \<open>0 < H\<close> by (simp add: pos_imp_zdiv_nonneg_iff)
  have neg: "(L - W) div H < 0" if "\<not> W \<le> L"
    using that \<open>0 < H\<close> by (simp add: div_neg_pos_less0)
  have "nat (frame_count_of L W H) = nat ((L - W) div H + 1)"
  proof (cases "W \<le> L")
    case True
    then show ?thesis by (simp add: count)
  next
    case False
    with neg [OF False] show ?thesis by (simp add: count)
  qed
  then have list: "frame_offsets L W H = map (\<lambda>k. int k * H) [0..<nat (frame_count_of L W H)]"
    using \<open>0 < H\<close> by (simp add: frame_offsets_closed)
  have formula: "frame_count_of L W H = (if W \<le> L then max 0 ((L - W) div H + 1) else 0)"
    using nonneg by (simp add: count)
  have one: "frame_count_of W W H = 1"
    by (simp add: count)
  have zero: "frame_count_of (W - 1) W H = 0"
    by (simp add: count)
  from frame_offsets_set [OF \<open>0 < H\<close>] list formula one zero show ?thesis
    by blast
qed

theorem framer_offsets_and_count_witness:
  "(0::int) < 62 \<and> (0::int) < 31
   \<and> frame_offsets 250 62 31 = [0, 31, 62, 93, 124, 155, 186]
   \<and> frame_count_of 250 62 31 = 7
   \<and> frame_count_of 62 62 31 = 1 \<and> frame_count_of 61 62 31 = 0"
  using framer_offsets_and_count [of 62 31 250]
  by (simp add: upt_conv_Cons)

section \<open>The decibel conversion\<close>

lemma log10_pow10: "log 10 10000000000 = 10"
proof -
  have "log 10 (10 ^ 10) = real 10 * log 10 10"
    by (rule log_nat_power) simp
  then show ?thesis by simp
qed

text \<open>
  Claim C2. At every frame index and bin index the decibel value of the reference script
  is \<open>20 \<cdot> log10 (magnitude + \<epsilon>)\<close>, where the magnitude is the modulus of the
  coefficient and \<open>\<epsilon> = 1e-10\<close> is a fixed positive constant; and the decibel value is
  monotonically non-decreasing in the magnitude: for magnitudes \<open>m1 \<le> m2\<close> (magnitudes
  are not negative), \<open>dB m1 \<le> dB m2\<close>.
\<close>

theorem db_formula_and_monotone:
  "(\<forall>i<length Zxx. \<forall>j<length (Zxx ! i).
      db (magnitude Zxx) ! i ! j = 20 * log 10 (cmod (Zxx ! i ! j) + 1 / 10 ^ 10))
   \<and> (0::real) < 1 / 10 ^ 10
   \<and> (\<forall>m1 m2. 0 \<le> m1 \<longrightarrow> m1 \<le> m2 \<longrightarrow> db_value m1 \<le> db_value m2)"
  by (simp add: db_def magnitude_def db_value_def)

theorem db_formula_and_monotone_witness:
  "db (magnitude [[0, 3]]) ! 0 ! 1 = 20 * log 10 (3 + 1 / 10 ^ 10)
   \<and> db (magnitude [[0, 3]]) ! 0 ! 0 = - 200
   \<and> db_value 0 \<le> db_value 3"
  using db_formula_and_monotone [of "[[0, 3]]"]
  by (simp add: log_divide log10_pow10)

section \<open>The end-to-end scenario\<close>

text \<open>
  Claim C3. For the fixed configuration (sample rate 125 Hz, the 2-second signal of
  \<^verbatim>\<open>np.arange(0, 2.0, 1/125)\<close>, that is 250 samples, window size 62, hop size 31, Hann
  window) the engine's Result has frame count \<open>floor ((250 - 62) / 31) + 1 = 7\<close>,
  frequency bin count \<open>floor (62 / 2) + 1 = 32\<close>, frame time step \<open>31 / 125 = 0.248\<close> s
  and frequency resolution \<open>125 / 62\<close>, which is 2.016 Hz to three decimals; this holds
  under either policy for empty results.
\<close>

theorem scenario_metadata:
  "compute_stft_metadata pol (int (arange_length 0 2 (1 / 125)))
     \<lparr>window_size = 62, hop_size = 31, sample_rate = 125, window_type = 0\<rparr>
   = Inr \<lparr>res_frame_count = 7, res_frequency_bin_count = 32,
          res_frame_time_step = 0.248, res_frequency_resolution = 125 / 62\<rparr>
   \<and> arange_length 0 2 (1 / 125) = 250
   \<and> (250 - 62) div 31 + 1 = (7::int) \<and> 62 div 2 + 1 = (32::int)
   \<and> (31::real) / 125 = 0.248
   \<and> \<bar>(125::real) / 62 - 2.016\<bar> < 0.0005"
  by (simp add: compute_stft_metadata_def arange_length_def frame_count_closed)

section \<open>The wrapper: converting the input and calling the library\<close>

lemma to_float32_props:
  assumes "valid_signal h sig" and "to_float32 f32 h sig = (p0, h0)"
  shows "p0 < length h0" and "dtype (h0 ! p0) = Float32"
    and "length h \<le> length h0" and "\<forall>a<length h. h0 ! a = h ! a"
    and "elems (h0 ! p0) = input_elems f32 h sig"
    and "p0 < length h \<longleftrightarrow> (\<exists>p. sig = NdArray p \<and> dtype (h ! p) = Float32)"
    and "p0 < length h \<Longrightarrow> sig = NdArray p0 \<and> h0 = h"
  using assms
  by (cases sig; auto simp: to_float32_def alloc_def np_array_float32_def astype_float32_def
        input_elems_def nth_append split: if_splits)+

lemma to_contiguous_props:
  assumes "p0 < length h0" and "to_contiguous h0 p0 = (p, h)"
  shows "p < length h" and "c_contiguous (h ! p)" and "dtype (h ! p) = dtype (h0 ! p0)"
    and "elems (h ! p) = elems (h0 ! p0)"
    and "length h0 \<le> length h" and "\<forall>a<length h0. h ! a = h0 ! a"
    and "p < length h0 \<longleftrightarrow> c_contiguous (h0 ! p0)"
    and "p < length h0 \<Longrightarrow> p = p0 \<and> h = h0"
  using assms
  by (auto simp: to_contiguous_def alloc_def ascontiguousarray_def nth_append split: if_splits)

lemma call_engine_props:
  assumes valid: "valid_signal (heap st) sig"
    and call: "call_engine f32 self st sig wsz hop sr wtype = (reply, st1)"
  shows "\<exists>input p.
      dtype input = Float32 \<and> c_contiguous input
    \<and> elems input = input_elems f32 (heap st) sig
    \<and> calls st1 = calls st @ [Perform_stft input (c_int (int (length (elems input))))
                                 (make_parameters wsz hop sr wtype)]
    \<and> reply = fst (lib_perform_stft (lib self) (elems input)
                     (c_int (int (length (elems input)))) (make_parameters wsz hop sr wtype))
    \<and> length (heap st) \<le> length (heap st1)
    \<and> (\<forall>a<length (heap st). a \<noteq> p \<longrightarrow> heap st1 ! a = heap st ! a)
    \<and> (p < length (heap st) \<longleftrightarrow> passed_through (heap st) sig)
    \<and> (p < length (heap st) \<longrightarrow> sig = NdArray p \<and> input = heap st ! p
         \<and> heap st1 ! p = (heap st ! p)\<lparr>elems := snd (lib_perform_stft (lib self) (elems input)
                     (c_int (int (length (elems input)))) (make_parameters wsz hop sr wtype))\<rparr>)"
proof -
  obtain p0 h0 where f: "to_float32 f32 (heap st) sig = (p0, h0)"
    by (cases "to_float32 f32 (heap st) sig")
  obtain p h where c: "to_contiguous h0 p0 = (p, h)"
    by (cases "to_contiguous h0 p0")
  note F = to_float32_props [OF valid f]
  note C = to_contiguous_props [OF F(1) c]
  define input where "input = h ! p"
  define n where "n = c_int (int (length (elems input)))"
  define ps where "ps = make_parameters wsz hop sr wtype"
  obtain rep written where e: "lib_perform_stft (lib self) (elems input) n ps = (rep, written)"
    by (cases "lib_perform_stft (lib self) (elems input) n ps")
  from call have reply: "reply = rep"
    and st1: "st1 = \<lparr>heap = h[p := input\<lparr>elems := written\<rparr>],
                     calls = calls st @ [Perform_stft input n ps]\<rparr>"
    using f c e by (simp_all add: call_engine_def input_def n_def ps_def Let_def)
  have 1: "dtype input = Float32" using C(3) F(2) by (simp add: input_def)
  have 2: "c_contiguous input" using C(2) by (simp add: input_def)
  have 3: "elems input = input_elems f32 (heap st) sig" using C(4) F(5) by (simp add: input_def)
  have 4: "calls st1 = calls st @ [Perform_stft input n ps]" by (simp add: st1)
  have 5: "reply = fst (lib_perform_stft (lib self) (elems input) n ps)" by (simp add: reply e)
  have 6: "length (heap st) \<le> length (heap st1)" using F(3) C(5) by (simp add: st1)
  have 7: "\<forall>a<length (heap st). a \<noteq> p \<longrightarrow> heap st1 ! a = heap st ! a"
    using F(3,4) C(5,6) by (simp add: st1)
  have 8: "p < length (heap st) \<longleftrightarrow> passed_through (heap st) sig"
  proof
    assume "p < length (heap st)"
    then have "p < length h0" using F(3) by simp
    then have "p = p0 \<and> h = h0" and "c_contiguous (h0 ! p0)" using C(7,8) by auto
    with \<open>p < length (heap st)\<close> F(7) show "passed_through (heap st) sig"
      using F(2) by (auto simp: passed_through_def)
  next
    assume "passed_through (heap st) sig"
    then obtain q where q: "sig = NdArray q" "dtype (heap st ! q) = Float32"
      "c_contiguous (heap st ! q)"
      by (auto simp: passed_through_def split: py_signal.splits)
    then have "p0 < length (heap st)" using F(6) by auto
    then have "sig = NdArray p0 \<and> h0 = heap st" using F(7) by simp
    with q have "c_contiguous (h0 ! p0)" by simp
    then have "p < length h0" using C(7) by simp
    then have "p = p0" using C(8) by simp
    with \<open>p0 < length (heap st)\<close> show "p < length (heap st)" by simp
  qed
  have 9: "p < length (heap st) \<longrightarrow> sig = NdArray p \<and> input = heap st ! p
         \<and> heap st1 ! p = (heap st ! p)\<lparr>elems := snd (lib_perform_stft (lib self) (elems input) n ps)\<rparr>"
  proof
    assume lt: "p < length (heap st)"
    then have "p < length h0" using F(3) by simp
    then have eq: "p = p0 \<and> h = h0" using C(8) by simp
    with lt F(7) have "sig = NdArray p \<and> h = heap st" by simp
    moreover have "snd (lib_perform_stft (lib self) (elems input) n ps) = written"
      by (simp add: e)
    ultimately show "sig = NdArray p \<and> input = heap st ! p
         \<and> heap st1 ! p = (heap st ! p)\<lparr>elems := snd (lib_perform_stft (lib self) (elems input) n ps)\<rparr>"
      using lt by (simp add: st1 input_def)
  qed
  from 1 2 3 4 5 6 7 8 9 show ?thesis
    unfolding n_def ps_def by blast
qed

lemma call_engine_reply:
  assumes "valid_signal (heap st) sig"
    and "call_engine f32 self st sig wsz hop sr wtype = (reply, st1)"
  shows "reply = fst (lib_perform_stft (lib self) (input_elems f32 (heap st) sig)
                   (c_int (int (length (input_elems f32 (heap st) sig))))
                   (make_parameters wsz hop sr wtype))"
  using call_engine_props [OF assms] by (elim exE conjE) simp

section \<open>The wrapper: handling the library's answer\<close>

lemma read_rows_Inr:
  "read_rows pw fs n = Inr g \<Longrightarrow>
   length g = length fs \<and>
   (\<forall>i<length fs. length (g ! i) = n \<and>
      (\<forall>b<n. \<exists>row. pw (fs ! i) = Some row \<and> g ! i ! b = row b))"
proof (induction fs arbitrary: g)
  case Nil
  then show ?case by simp
next
  case (Cons f fs)
  from Cons.prems obtain r rs where r: "read_row (pw f) n = Inr r"
    and rs: "read_rows pw fs n = Inr rs" and g: "g = r # rs"
    by (auto split: sum.splits)
  from r have row: "length r = n \<and> (\<forall>b<n. \<exists>row. pw f = Some row \<and> r ! b = row b)"
    by (auto simp: read_row_def split: if_splits option.splits)
  from Cons.IH [OF rs] row show ?case
    by (auto simp: g nth_Cons split: nat.splits)
qed

lemma read_rows_Inl:
  "read_rows pw fs n = Inl e \<Longrightarrow> e = ValueError ''NULL pointer access''"
  by (induction fs) (auto simp: read_row_def split: sum.splits if_splits option.splits)

lemma build_spectrogram_Inr:
  assumes "build_spectrogram fc fbc pw = Inr g"
  shows "0 \<le> fc" and "0 \<le> fbc" and "length g = nat fc"
    and "\<forall>f<nat fc. length (g ! f) = nat fbc \<and>
           (\<forall>b<nat fbc. \<exists>row. pw f = Some row \<and> g ! f ! b = row b)"
proof -
  from assms have nn: "\<not> (fc < 0 \<or> fbc < 0)"
    and rows: "read_rows pw [0..<nat fc] (nat fbc) = Inr g"
    by (auto simp: build_spectrogram_def split: if_splits)
  from nn show "0 \<le> fc" and "0 \<le> fbc" by auto
  from read_rows_Inr [OF rows] show "length g = nat fc"
    and "\<forall>f<nat fc. length (g ! f) = nat fbc \<and>
           (\<forall>b<nat fbc. \<exists>row. pw f = Some row \<and> g ! f ! b = row b)"
    by auto
qed

lemma build_spectrogram_Inl:
  "build_spectrogram fc fbc pw = Inl e \<Longrightarrow> \<exists>m. e = ValueError m"
  by (auto simp: build_spectrogram_def split: if_splits dest: read_rows_Inl)

lemma error_message_of_cases:
  "error_message_of msg = Inl UnicodeDecodeError \<or> (\<exists>m. error_message_of msg = Inr m)"
  by (auto simp: error_message_of_def decode_utf8_def split: option.splits)

lemma error_message_of_Inl:
  "error_message_of msg = Inl e \<Longrightarrow> e = UnicodeDecodeError"
  by (auto simp: error_message_of_def decode_utf8_def split: option.splits if_splits)

lemma perform_unfold:
  assumes "call_engine f32 self st sig wsz hop sr wtype = ((rp, r), st1)"
  shows "STFTWrapper_perform_stft f32 self st sig wsz hop sr wtype =
     (if rp = NULL then (Inl (RuntimeError ''STFT computation failed''), st1)
      else if \<not> success r then
        (case error_message_of (message r) of
           Inl e \<Rightarrow> (Inl e, st1)
         | Inr error_msg \<Rightarrow>
             (Inl (RuntimeError (''STFT failed: '' @ error_msg)), log_calls st1 [Free_result rp]))
      else if fst (lib_get_power_spectrogram_db (lib self) rp r) = NULL
        then (Inl (RuntimeError ''Failed to get power spectrogram''),
              log_calls st1 [Get_power_spectrogram_db rp, Free_result rp])
      else
        (case build_spectrogram (frame_count r) (frequency_bin_count r)
                (snd (lib_get_power_spectrogram_db (lib self) rp r)) of
           Inl e \<Rightarrow> (Inl e, log_calls st1 [Get_power_spectrogram_db rp])
         | Inr spectrogram \<Rightarrow>
             (Inr (result_dict spectrogram r),
              log_calls st1 [Get_power_spectrogram_db rp,
                             Free_2d_array (fst (lib_get_power_spectrogram_db (lib self) rp r))
                               (frame_count r),
                             Free_result rp])))"
  using assms
  by (simp add: STFTWrapper_perform_stft_def log_calls_def Let_def split: prod.splits sum.splits)

lemma heap_after_perform:
  "heap (snd (STFTWrapper_perform_stft f32 self st sig wsz hop sr wtype))
     = heap (snd (call_engine f32 self st sig wsz hop sr wtype))"
proof -
  obtain rp r st1 where c: "call_engine f32 self st sig wsz hop sr wtype = ((rp, r), st1)"
    by (metis surj_pair)
  show ?thesis
    by (simp add: perform_unfold [OF c] c log_calls_def split: sum.splits)
qed

lemma calls_after_perform:
  assumes c: "call_engine f32 self st sig wsz hop sr wtype = ((rp, r), st1)"
  shows "\<exists>extra. calls (snd (STFTWrapper_perform_stft f32 self st sig wsz hop sr wtype))
                   = calls st1 @ extra
           \<and> (\<forall>a n ps. Perform_stft a n ps \<notin> set extra)"
  by (simp add: perform_unfold [OF c] log_calls_def split: sum.splits)

lemma perform_stft_without_library:
  "cdll lib_path = None \<Longrightarrow>
   perform_stft f32 cdll lib_path st sig wsz hop sr wtype = (Inl OSError, st)"
  by (simp add: perform_stft_def STFTWrapper_init_def)

lemma fst_perform_reply:
  assumes "call_engine f32 self st sig wsz hop sr wtype = (reply, st1)"
    and "call_engine f32 self st' sig' wsz' hop' sr' wtype' = (reply, st1')"
  shows "fst (STFTWrapper_perform_stft f32 self st sig wsz hop sr wtype)
       = fst (STFTWrapper_perform_stft f32 self st' sig' wsz' hop' sr' wtype')"
proof -
  obtain rp r where "reply = (rp, r)" by (cases reply)
  with assms show ?thesis
    by (simp add: perform_unfold [of f32 self st sig wsz hop sr wtype rp r st1]
        perform_unfold [of f32 self st' sig' wsz' hop' sr' wtype' rp r st1'] split: sum.splits)
qed

text \<open>
  Evaluating the wrapper on a concrete library unfolds these definitions.
\<close>

lemmas wrapper_defs =
  STFTWrapper_perform_stft_def call_engine_def to_float32_def to_contiguous_def alloc_def
  np_array_float32_def astype_float32_def ascontiguousarray_def c_int_def log_calls_def
  error_message_of_def decode_utf8_def build_spectrogram_def read_row_def result_dict_def
  make_parameters_def fixture_result_def fixture_lib_def overwriting_lib_def Let_def

section \<open>Failures become exceptions, results are complete\<close>

text \<open>
  Claim C6. Whenever the library reports a failure (a null result pointer, a result
  with \<open>success = false\<close>, or a null power-spectrogram pointer) the method raises an
  exception that carries a message and returns no value: a \<^verbatim>\<open>RuntimeError\<close> with a
  non-empty text, or the \<^verbatim>\<open>UnicodeDecodeError\<close> of a failure message that is not
  UTF-8. Whenever the method returns, the dictionary has exactly the five keys
  \<^verbatim>\<open>spectrogram\<close>, \<^verbatim>\<open>frame_count\<close>, \<^verbatim>\<open>frequency_bin_count\<close>, \<^verbatim>\<open>frame_time\<close>,
  \<^verbatim>\<open>frequency_resolution\<close>, and its spectrogram is filled in full: \<open>frame_count\<close>
  rows of \<open>frequency_bin_count\<close> cells.
\<close>

theorem failure_raises_and_dict_complete:
  assumes "call_engine f32 self st sig wsz hop sr wtype = ((rp, r), st1)"
  shows "(rp = NULL \<or> \<not> success r \<or> fst (lib_get_power_spectrogram_db (lib self) rp r) = NULL
          \<longrightarrow> (\<exists>e. fst (STFTWrapper_perform_stft f32 self st sig wsz hop sr wtype) = Inl e
                 \<and> (e = UnicodeDecodeError \<or> (\<exists>m. e = RuntimeError m \<and> m \<noteq> []))))
       \<and> (\<forall>d. fst (STFTWrapper_perform_stft f32 self st sig wsz hop sr wtype) = Inr d \<longrightarrow>
             map fst d = [''spectrogram'', ''frame_count'', ''frequency_bin_count'',
                          ''frame_time'', ''frequency_resolution'']
             \<and> (\<exists>g. d = result_dict g r \<and> length g = nat (frame_count r)
                    \<and> (\<forall>row\<in>set g. length row = nat (frequency_bin_count r))))"
proof (intro conjI impI allI)
  assume fail: "rp = NULL \<or> \<not> success r \<or> fst (lib_get_power_spectrogram_db (lib self) rp r) = NULL"
  show "\<exists>e. fst (STFTWrapper_perform_stft f32 self st sig wsz hop sr wtype) = Inl e
                 \<and> (e = UnicodeDecodeError \<or> (\<exists>m. e = RuntimeError m \<and> m \<noteq> []))"
    using fail error_message_of_cases [of "message r"]
    by (auto simp: perform_unfold [OF assms])
next
  fix d
  assume ret: "fst (STFTWrapper_perform_stft f32 self st sig wsz hop sr wtype) = Inr d"
  then obtain g where g: "build_spectrogram (frame_count r) (frequency_bin_count r)
                (snd (lib_get_power_spectrogram_db (lib self) rp r)) = Inr g"
    and d: "d = result_dict g r"
    by (auto simp: perform_unfold [OF assms] split: if_splits sum.splits)
  show "map fst d = [''spectrogram'', ''frame_count'', ''frequency_bin_count'',
                          ''frame_time'', ''frequency_resolution'']"
    by (simp add: d result_dict_def)
  from build_spectrogram_Inr(3,4) [OF g]
  have "length g = nat (frame_count r)"
    and "\<forall>row\<in>set g. length row = nat (frequency_bin_count r)"
    by (auto simp: in_set_conv_nth)
  with d show "\<exists>g. d = result_dict g r \<and> length g = nat (frame_count r)
                    \<and> (\<forall>row\<in>set g. length row = nat (frequency_bin_count r))"
    by blast
qed

theorem failure_raises_and_dict_complete_witness:
  "call_engine id \<lparr>lib = fixture_lib (Ptr 1) (fixture_result False (Some ''bad hop'')) NULL\<rparr>
       \<lparr>heap = [], calls = []\<rparr> (PySeq [1, 2]) 62 0 125 0
     = ((Ptr 1, fixture_result False (Some ''bad hop'')),
        \<lparr>heap = [\<lparr>dtype = Float32, c_contiguous = True, elems = [1, 2]\<rparr>],
         calls = [Perform_stft \<lparr>dtype = Float32, c_contiguous = True, elems = [1, 2]\<rparr> 2
                    \<lparr>window_size = 62, hop_size = 0, sample_rate = 125, window_type = 0\<rparr>]\<rparr>)
   \<and> \<not> success (fixture_result False (Some ''bad hop''))
   \<and> fst (STFTWrapper_perform_stft id
            \<lparr>lib = fixture_lib (Ptr 1) (fixture_result False (Some ''bad hop'')) NULL\<rparr>
            \<lparr>heap = [], calls = []\<rparr> (PySeq [1, 2]) 62 0 125 0)
       = Inl (RuntimeError ''STFT failed: bad hop'')
   \<and> fst (STFTWrapper_perform_stft id
            \<lparr>lib = fixture_lib (Ptr 1) (fixture_result True None) (Ptr 3)\<rparr>
            \<lparr>heap = [], calls = []\<rparr> (PySeq [1, 2]) 62 31 125 0)
       = Inr (result_dict [[0, 1]] (fixture_result True None))
   \<and> map fst (result_dict [[0, 1]] (fixture_result True None))
       = [''spectrogram'', ''frame_count'', ''frequency_bin_count'',
          ''frame_time'', ''frequency_resolution'']"
proof -
  have c: "call_engine id \<lparr>lib = fixture_lib (Ptr 1) (fixture_result False (Some ''bad hop'')) NULL\<rparr>
       \<lparr>heap = [], calls = []\<rparr> (PySeq [1, 2]) 62 0 125 0
     = ((Ptr 1, fixture_result False (Some ''bad hop'')),
        \<lparr>heap = [\<lparr>dtype = Float32, c_contiguous = True, elems = [1, 2]\<rparr>],
         calls = [Perform_stft \<lparr>dtype = Float32, c_contiguous = True, elems = [1, 2]\<rparr> 2
                    \<lparr>window_size = 62, hop_size = 0, sample_rate = 125, window_type = 0\<rparr>]\<rparr>)"
    by (simp add: wrapper_defs)
  have c': "call_engine id \<lparr>lib = fixture_lib (Ptr 1) (fixture_result True None) (Ptr 3)\<rparr>
       \<lparr>heap = [], calls = []\<rparr> (PySeq [1, 2]) 62 31 125 0
     = ((Ptr 1, fixture_result True None),
        \<lparr>heap = [\<lparr>dtype = Float32, c_contiguous = True, elems = [1, 2]\<rparr>],
         calls = [Perform_stft \<lparr>dtype = Float32, c_contiguous = True, elems = [1, 2]\<rparr> 2
                    \<lparr>window_size = 62, hop_size = 31, sample_rate = 125, window_type = 0\<rparr>]\<rparr>)"
    by (simp add: wrapper_defs)
  have ok: "fst (STFTWrapper_perform_stft id
            \<lparr>lib = fixture_lib (Ptr 1) (fixture_result True None) (Ptr 3)\<rparr>
            \<lparr>heap = [], calls = []\<rparr> (PySeq [1, 2]) 62 31 125 0)
       = Inr (result_dict [[0, 1]] (fixture_result True None))"
    by (simp add: wrapper_defs upt_conv_Cons)
  have bad: "fst (STFTWrapper_perform_stft id
            \<lparr>lib = fixture_lib (Ptr 1) (fixture_result False (Some ''bad hop'')) NULL\<rparr>
            \<lparr>heap = [], calls = []\<rparr> (PySeq [1, 2]) 62 0 125 0)
       = Inl (RuntimeError ''STFT failed: bad hop'')"
    by (simp add: wrapper_defs)
  from failure_raises_and_dict_complete [OF c] failure_raises_and_dict_complete [OF c'] c ok bad
  show ?thesis
    by (simp add: fixture_result_def)
qed

text \<open>
  Claim C10. When the library reports a failure (\<open>success = false\<close> behind a result
  pointer that is not null) and the message pointer is null, the method raises
  \<^verbatim>\<open>RuntimeError("STFT failed: Unknown error")\<close>, whose text contains
  \<^verbatim>\<open>Unknown error\<close>; the null message is not decoded, no value is returned, and the
  result is released once.
\<close>

theorem null_message_unknown_error:
  assumes "call_engine f32 self st sig wsz hop sr wtype = ((rp, r), st1)"
    and "rp \<noteq> NULL" and "\<not> success r" and "message r = None"
  shows "STFTWrapper_perform_stft f32 self st sig wsz hop sr wtype
           = (Inl (RuntimeError ''STFT failed: Unknown error''), log_calls st1 [Free_result rp])
       \<and> sublist ''Unknown error'' ''STFT failed: Unknown error''"
proof -
  have "sublist ''Unknown error'' (''STFT failed: '' @ ''Unknown error'' @ [])"
    by (rule sublist_appendI)
  then have "sublist ''Unknown error'' ''STFT failed: Unknown error''"
    by simp
  then show ?thesis
    using assms(2-4) by (simp add: perform_unfold [OF assms(1)] error_message_of_def)
qed

theorem null_message_unknown_error_witness:
  "call_engine id \<lparr>lib = fixture_lib (Ptr 1) (fixture_result False None) NULL\<rparr>
       \<lparr>heap = [], calls = []\<rparr> (PySeq [1, 2]) 62 31 125 0
     = ((Ptr 1, fixture_result False None),
        \<lparr>heap = [\<lparr>dtype = Float32, c_contiguous = True, elems = [1, 2]\<rparr>],
         calls = [Perform_stft \<lparr>dtype = Float32, c_contiguous = True, elems = [1, 2]\<rparr> 2
                    \<lparr>window_size = 62, hop_size = 31, sample_rate = 125, window_type = 0\<rparr>]\<rparr>)
   \<and> Ptr 1 \<noteq> NULL
   \<and> \<not> success (fixture_result False None)
   \<and> message (fixture_result False None) = None
   \<and> STFTWrapper_perform_stft id \<lparr>lib = fixture_lib (Ptr 1) (fixture_result False None) NULL\<rparr>
       \<lparr>heap = [], calls = []\<rparr> (PySeq [1, 2]) 62 31 125 0
     = (Inl (RuntimeError ''STFT failed: Unknown error''),
        \<lparr>heap = [\<lparr>dtype = Float32, c_contiguous = True, elems = [1, 2]\<rparr>],
         calls = [Perform_stft \<lparr>dtype = Float32, c_contiguous = True, elems = [1, 2]\<rparr> 2
                    \<lparr>window_size = 62, hop_size = 31, sample_rate = 125, window_type = 0\<rparr>,
                  Free_result (Ptr 1)]\<rparr>)"
proof -
  have c: "call_engine id \<lparr>lib = fixture_lib (Ptr 1) (fixture_result False None) NULL\<rparr>
       \<lparr>heap = [], calls = []\<rparr> (PySeq [1, 2]) 62 31 125 0
     = ((Ptr 1, fixture_result False None),
        \<lparr>heap = [\<lparr>dtype = Float32, c_contiguous = True, elems = [1, 2]\<rparr>],
         calls = [Perform_stft \<lparr>dtype = Float32, c_contiguous = True, elems = [1, 2]\<rparr> 2
                    \<lparr>window_size = 62, hop_size = 31, sample_rate = 125, window_type = 0\<rparr>]\<rparr>)"
    by (simp add: wrapper_defs)
  have f: "\<not> success (fixture_result False None)" and m: "message (fixture_result False None) = None"
    by (simp_all add: fixture_result_def)
  have p: "Ptr 1 \<noteq> NULL" by simp
  from null_message_unknown_error [OF c p f m] c f m show ?thesis
    by (simp add: log_calls_def)
qed

section \<open>Releasing the handles\<close>

text \<open>
  On the paths that end in the \<^verbatim>\<open>return\<close> or in one of the method's own
  \<^verbatim>\<open>raise RuntimeError\<close> statements, every handle obtained is released exactly once:
  the result by \<^verbatim>\<open>stft_free_result\<close>, the power grid by \<^verbatim>\<open>stft_free_2d_array\<close>. On
  every path, no release is called on a null pointer and none is called twice.
\<close>

lemma frees_on_handled_paths:
  assumes c: "call_engine f32 self st sig wsz hop sr wtype = ((rp, r), st1)"
    and handled: "(\<exists>d. fst (STFTWrapper_perform_stft f32 self st sig wsz hop sr wtype) = Inr d)
                \<or> (\<exists>m. fst (STFTWrapper_perform_stft f32 self st sig wsz hop sr wtype)
                          = Inl (RuntimeError m))"
  shows "\<exists>extra. calls (snd (STFTWrapper_perform_stft f32 self st sig wsz hop sr wtype))
                   = calls st1 @ extra
           \<and> count_list extra (Free_result rp) = (if rp = NULL then 0 else 1)
           \<and> (\<forall>q. q \<noteq> rp \<longrightarrow> Free_result q \<notin> set extra)
           \<and> (\<forall>pp n. Free_2d_array pp n \<in> set extra \<longrightarrow>
                 pp \<noteq> NULL \<and> pp = fst (lib_get_power_spectrogram_db (lib self) rp r)
                 \<and> count_list extra (Free_2d_array pp n) = 1)
           \<and> (Get_power_spectrogram_db rp \<in> set extra
                \<and> fst (lib_get_power_spectrogram_db (lib self) rp r) \<noteq> NULL \<longrightarrow>
                 Free_2d_array (fst (lib_get_power_spectrogram_db (lib self) rp r)) (frame_count r)
                   \<in> set extra)"
  using handled
  by (auto simp: perform_unfold [OF c] log_calls_def split: if_splits sum.splits
        dest: error_message_of_Inl build_spectrogram_Inl)

lemma never_null_or_double_free:
  assumes c: "call_engine f32 self st sig wsz hop sr wtype = ((rp, r), st1)"
  shows "\<exists>extra. calls (snd (STFTWrapper_perform_stft f32 self st sig wsz hop sr wtype))
                   = calls st1 @ extra
           \<and> Free_result NULL \<notin> set extra
           \<and> (\<forall>n. Free_2d_array NULL n \<notin> set extra)
           \<and> (\<forall>q. count_list extra (Free_result q) \<le> 1)
           \<and> (\<forall>pp n. count_list extra (Free_2d_array pp n) \<le> 1)"
  by (auto simp: perform_unfold [OF c] log_calls_def split: if_splits sum.splits)

text \<open>
  Claim C7. Every handle obtained from the library is released exactly once on every
  path. The method does not do this on a path that leaves it by an exception of a
  called function: here the library reports a failure whose message is the single byte
  \<^verbatim>\<open>0xFF\<close>, which is not UTF-8. Decoding it (line 114) raises \<^verbatim>\<open>UnicodeDecodeError\<close>
  before \<^verbatim>\<open>stft_free_result\<close> (line 115) is reached: the log of library calls holds
  the call of \<^verbatim>\<open>perform_stft\<close> and nothing else, and the result \<open>Ptr 1\<close> is never
  released.
\<close>

theorem undecodable_message_leaks_result:
  "STFTWrapper_perform_stft id
     \<lparr>lib = fixture_lib (Ptr 1) (fixture_result False (Some [CHR 0xFF])) NULL\<rparr>
     \<lparr>heap = [], calls = []\<rparr> (PySeq [1, 2]) 62 31 125 0
   = (Inl UnicodeDecodeError,
      \<lparr>heap = [\<lparr>dtype = Float32, c_contiguous = True, elems = [1, 2]\<rparr>],
       calls = [Perform_stft \<lparr>dtype = Float32, c_contiguous = True, elems = [1, 2]\<rparr> 2
                  \<lparr>window_size = 62, hop_size = 31, sample_rate = 125, window_type = 0\<rparr>]\<rparr>)"
  by (simp add: wrapper_defs)

section \<open>Element type and contiguity across the boundary\<close>

text \<open>
  Claim C8. For every signal the method accepts (a sequence of numbers, or an array of
  any real element type and layout), the array whose buffer is handed to the library
  is C-contiguous and of element type \<^verbatim>\<open>float32\<close>, with the library told its length;
  its elements are the caller's own when the caller's array is \<^verbatim>\<open>float32\<close> already.
  The library is called once. The spectrogram returned to the caller is a
  \<^verbatim>\<open>float32\<close> array whose cell at frame \<open>f\<close> and bin \<open>b\<close> is the library's value
  \<^verbatim>\<open>power_ptr[f][b]\<close>, unchanged.
\<close>

theorem float32_contiguous_across_boundary:
  assumes valid: "valid_signal (heap st) sig"
    and c: "call_engine f32 self st sig wsz hop sr wtype = ((rp, r), st1)"
  shows "(\<exists>input extra.
            dtype input = Float32 \<and> c_contiguous input
          \<and> elems input = input_elems f32 (heap st) sig
          \<and> (rp, r) = fst (lib_perform_stft (lib self) (elems input)
                            (c_int (int (length (elems input)))) (make_parameters wsz hop sr wtype))
          \<and> calls (snd (STFTWrapper_perform_stft f32 self st sig wsz hop sr wtype))
              = calls st @ Perform_stft input (c_int (int (length (elems input))))
                             (make_parameters wsz hop sr wtype) # extra
          \<and> (\<forall>a n ps. Perform_stft a n ps \<notin> set extra))
       \<and> (\<forall>d. fst (STFTWrapper_perform_stft f32 self st sig wsz hop sr wtype) = Inr d \<longrightarrow>
            (\<exists>g. map_of d ''spectrogram'' = Some (PyArray2 Float32 g)
               \<and> length g = nat (frame_count r)
               \<and> (\<forall>f<nat (frame_count r).
                     length (g ! f) = nat (frequency_bin_count r)
                   \<and> (\<forall>b<nat (frequency_bin_count r).
                        \<exists>row. snd (lib_get_power_spectrogram_db (lib self) rp r) f = Some row
                            \<and> g ! f ! b = row b))))"
proof (intro conjI allI impI)
  from call_engine_props [OF valid c] obtain input where
    i: "dtype input = Float32" "c_contiguous input"
       "elems input = input_elems f32 (heap st) sig"
       "calls st1 = calls st @ [Perform_stft input (c_int (int (length (elems input))))
                                 (make_parameters wsz hop sr wtype)]"
       "(rp, r) = fst (lib_perform_stft (lib self) (elems input)
                     (c_int (int (length (elems input)))) (make_parameters wsz hop sr wtype))"
    by (elim exE conjE) simp
  from calls_after_perform [OF c] obtain extra where
    e: "calls (snd (STFTWrapper_perform_stft f32 self st sig wsz hop sr wtype)) = calls st1 @ extra"
       "\<forall>a n ps. Perform_stft a n ps \<notin> set extra"
    by blast
  from i e show "\<exists>input extra.
            dtype input = Float32 \<and> c_contiguous input
          \<and> elems input = input_elems f32 (heap st) sig
          \<and> (rp, r) = fst (lib_perform_stft (lib self) (elems input)
                            (c_int (int (length (elems input)))) (make_parameters wsz hop sr wtype))
          \<and> calls (snd (STFTWrapper_perform_stft f32 self st sig wsz hop sr wtype))
              = calls st @ Perform_stft input (c_int (int (length (elems input))))
                             (make_parameters wsz hop sr wtype) # extra
          \<and> (\<forall>a n ps. Perform_stft a n ps \<notin> set extra)"
    by (intro exI [of _ input] exI [of _ extra]) simp
next
  fix d
  assume "fst (STFTWrapper_perform_stft f32 self st sig wsz hop sr wtype) = Inr d"
  then obtain g where g: "build_spectrogram (frame_count r) (frequency_bin_count r)
                (snd (lib_get_power_spectrogram_db (lib self) rp r)) = Inr g"
    and d: "d = result_dict g r"
    by (auto simp: perform_unfold [OF c] split: if_splits sum.splits)
  from build_spectrogram_Inr(3,4) [OF g] d
  show "\<exists>g. map_of d ''spectrogram'' = Some (PyArray2 Float32 g)
               \<and> length g = nat (frame_count r)
               \<and> (\<forall>f<nat (frame_count r).
                     length (g ! f) = nat (frequency_bin_count r)
                   \<and> (\<forall>b<nat (frequency_bin_count r).
                        \<exists>row. snd (lib_get_power_spectrogram_db (lib self) rp r) f = Some row
                            \<and> g ! f ! b = row b))"
    by (intro exI [of _ g]) (simp add: result_dict_def)
qed

theorem float32_contiguous_across_boundary_witness:
  "valid_signal [\<lparr>dtype = Float64, c_contiguous = False, elems = [1, 2]\<rparr>] (NdArray 0)
   \<and> call_engine id \<lparr>lib = fixture_lib (Ptr 1) (fixture_result True None) (Ptr 3)\<rparr>
       \<lparr>heap = [\<lparr>dtype = Float64, c_contiguous = False, elems = [1, 2]\<rparr>], calls = []\<rparr>
       (NdArray 0) 62 31 125 0
     = ((Ptr 1, fixture_result True None),
        \<lparr>heap = [\<lparr>dtype = Float64, c_contiguous = False, elems = [1, 2]\<rparr>,
                 \<lparr>dtype = Float32, c_contiguous = True, elems = [1, 2]\<rparr>],
         calls = [Perform_stft \<lparr>dtype = Float32, c_contiguous = True, elems = [1, 2]\<rparr> 2
                    \<lparr>window_size = 62, hop_size = 31, sample_rate = 125, window_type = 0\<rparr>]\<rparr>)
   \<and> fst (STFTWrapper_perform_stft id
            \<lparr>lib = fixture_lib (Ptr 1) (fixture_result True None) (Ptr 3)\<rparr>
            \<lparr>heap = [\<lparr>dtype = Float64, c_contiguous = False, elems = [1, 2]\<rparr>], calls = []\<rparr>
            (NdArray 0) 62 31 125 0)
       = Inr (result_dict [[0, 1]] (fixture_result True None))
   \<and> map_of (result_dict [[0, 1]] (fixture_result True None)) ''spectrogram''
       = Some (PyArray2 Float32 [[0, 1]])"
proof -
  have v: "valid_signal (heap \<lparr>heap = [\<lparr>dtype = Float64, c_contiguous = False, elems = [1, 2]\<rparr>],
                               calls = []\<rparr>) (NdArray 0)"
    by simp
  have c: "call_engine id \<lparr>lib = fixture_lib (Ptr 1) (fixture_result True None) (Ptr 3)\<rparr>
       \<lparr>heap = [\<lparr>dtype = Float64, c_contiguous = False, elems = [1, 2]\<rparr>], calls = []\<rparr>
       (NdArray 0) 62 31 125 0
     = ((Ptr 1, fixture_result True None),
        \<lparr>heap = [\<lparr>dtype = Float64, c_contiguous = False, elems = [1, 2]\<rparr>,
                 \<lparr>dtype = Float32, c_contiguous = True, elems = [1, 2]\<rparr>],
         calls = [Perform_stft \<lparr>dtype = Float32, c_contiguous = True, elems = [1, 2]\<rparr> 2
                    \<lparr>window_size = 62, hop_size = 31, sample_rate = 125, window_type = 0\<rparr>]\<rparr>)"
    by (simp add: wrapper_defs)
  have ok: "fst (STFTWrapper_perform_stft id
            \<lparr>lib = fixture_lib (Ptr 1) (fixture_result True None) (Ptr 3)\<rparr>
            \<lparr>heap = [\<lparr>dtype = Float64, c_contiguous = False, elems = [1, 2]\<rparr>], calls = []\<rparr>
            (NdArray 0) 62 31 125 0)
       = Inr (result_dict [[0, 1]] (fixture_result True None))"
    by (simp add: wrapper_defs upt_conv_Cons)
  from float32_contiguous_across_boundary [OF v c] c ok show ?thesis
    by (simp add: result_dict_def fixture_result_def)
qed

section \<open>The caller's signal is not changed\<close>

lemma method_heap_unchanged:
  assumes valid: "valid_signal (heap st) sig"
    and safe: "read_only_engine (lib self) \<or> \<not> passed_through (heap st) sig"
  shows "length (heap st) \<le> length (heap (snd (STFTWrapper_perform_stft f32 self st sig wsz hop sr wtype)))
       \<and> (\<forall>a<length (heap st).
            heap (snd (STFTWrapper_perform_stft f32 self st sig wsz hop sr wtype)) ! a = heap st ! a)"
proof -
  obtain reply st1 where c: "call_engine f32 self st sig wsz hop sr wtype = (reply, st1)"
    by (cases "call_engine f32 self st sig wsz hop sr wtype")
  from call_engine_props [OF valid c] obtain input p where
    len: "length (heap st) \<le> length (heap st1)"
    and other: "\<forall>a<length (heap st). a \<noteq> p \<longrightarrow> heap st1 ! a = heap st ! a"
    and pt: "p < length (heap st) \<longleftrightarrow> passed_through (heap st) sig"
    and same: "p < length (heap st) \<longrightarrow> sig = NdArray p \<and> input = heap st ! p
         \<and> heap st1 ! p = (heap st ! p)\<lparr>elems := snd (lib_perform_stft (lib self) (elems input)
                     (c_int (int (length (elems input)))) (make_parameters wsz hop sr wtype))\<rparr>"
    by blast
  have "heap st1 ! a = heap st ! a" if a: "a < length (heap st)" for a
  proof (cases "a = p")
    case False
    with other a show ?thesis by simp
  next
    case True
    with a pt safe have ro: "read_only_engine (lib self)" by auto
    from True a same have "input = heap st ! p"
      and "heap st1 ! p = (heap st ! p)\<lparr>elems := snd (lib_perform_stft (lib self) (elems input)
                     (c_int (int (length (elems input)))) (make_parameters wsz hop sr wtype))\<rparr>"
      by auto
    with ro True show ?thesis by (simp add: read_only_engine_def)
  qed
  with len show ?thesis
    by (simp add: heap_after_perform c)
qed

lemma method_idempotent:
  assumes valid: "valid_signal (heap st) sig"
    and ro: "read_only_engine (lib self)"
  shows "fst (STFTWrapper_perform_stft f32 self
               (snd (STFTWrapper_perform_stft f32 self st sig wsz hop sr wtype)) sig wsz hop sr wtype)
       = fst (STFTWrapper_perform_stft f32 self st sig wsz hop sr wtype)"
proof -
  define st' where "st' = snd (STFTWrapper_perform_stft f32 self st sig wsz hop sr wtype)"
  from method_heap_unchanged [OF valid, of self f32 wsz hop sr wtype] ro
  have len: "length (heap st) \<le> length (heap st')"
    and same: "\<forall>a<length (heap st). heap st' ! a = heap st ! a"
    by (simp_all add: st'_def)
  from valid len have valid': "valid_signal (heap st') sig"
    by (cases sig) auto
  from valid same have ie: "input_elems f32 (heap st') sig = input_elems f32 (heap st) sig"
    by (cases sig) (auto simp: input_elems_def)
  obtain reply st1 where c: "call_engine f32 self st sig wsz hop sr wtype = (reply, st1)"
    by (cases "call_engine f32 self st sig wsz hop sr wtype")
  obtain reply' st1' where c': "call_engine f32 self st' sig wsz hop sr wtype = (reply', st1')"
    by (cases "call_engine f32 self st' sig wsz hop sr wtype")
  from call_engine_reply [OF valid c] call_engine_reply [OF valid' c'] ie
  have "reply' = reply" by simp
  with c c' have "fst (STFTWrapper_perform_stft f32 self st' sig wsz hop sr wtype)
       = fst (STFTWrapper_perform_stft f32 self st sig wsz hop sr wtype)"
    by (intro fst_perform_reply) simp_all
  then show ?thesis by (simp add: st'_def)
qed

text \<open>
  The library does work on the caller's own buffer when no conversion is needed: a
  library that clears its input clears the caller's \<^verbatim>\<open>float32\<close> array.
\<close>

lemma engine_sees_callers_buffer:
  "heap (snd (STFTWrapper_perform_stft id \<lparr>lib = overwriting_lib\<rparr>
       \<lparr>heap = [\<lparr>dtype = Float32, c_contiguous = True, elems = [1, 2]\<rparr>], calls = []\<rparr>
       (NdArray 0) 62 31 125 0))
   = [\<lparr>dtype = Float32, c_contiguous = True, elems = [0, 0]\<rparr>]"
  by (simp add: wrapper_defs)

text \<open>
  Claim C9. A call never changes the caller's signal array. With an engine that is
  read-only on its input (as the specification states it), every array that existed
  before the call has the same contents after it, and calling again with the same
  arguments gives the same result; this holds for the method and for the convenience
  function \<^verbatim>\<open>perform_stft\<close>, also when loading the library fails. When the signal
  has to be converted (to \<^verbatim>\<open>float32\<close> or to a contiguous layout) the library works
  on a fresh copy, and the caller's array is unchanged whatever the library does. The
  configuration values are passed by value.
\<close>

theorem caller_signal_not_mutated:
  assumes "valid_signal (heap st) sig"
  shows "(read_only_engine (lib self) \<longrightarrow>
            (\<forall>a<length (heap st).
               heap (snd (STFTWrapper_perform_stft f32 self st sig wsz hop sr wtype)) ! a = heap st ! a)
          \<and> fst (STFTWrapper_perform_stft f32 self
                   (snd (STFTWrapper_perform_stft f32 self st sig wsz hop sr wtype))
                   sig wsz hop sr wtype)
              = fst (STFTWrapper_perform_stft f32 self st sig wsz hop sr wtype))
       \<and> (\<not> passed_through (heap st) sig \<longrightarrow>
            (\<forall>a<length (heap st).
               heap (snd (STFTWrapper_perform_stft f32 self st sig wsz hop sr wtype)) ! a = heap st ! a))
       \<and> ((\<forall>l. cdll lib_path = Some l \<longrightarrow> read_only_engine l) \<longrightarrow>
            (\<forall>a<length (heap st).
               heap (snd (perform_stft f32 cdll lib_path st sig wsz hop sr wtype)) ! a = heap st ! a)
          \<and> fst (perform_stft f32 cdll lib_path
                   (snd (perform_stft f32 cdll lib_path st sig wsz hop sr wtype))
                   sig wsz hop sr wtype)
              = fst (perform_stft f32 cdll lib_path st sig wsz hop sr wtype))"
proof (intro conjI impI)
  assume "read_only_engine (lib self)"
  then show "\<forall>a<length (heap st).
      heap (snd (STFTWrapper_perform_stft f32 self st sig wsz hop sr wtype)) ! a = heap st ! a"
    using method_heap_unchanged [OF assms, of self f32 wsz hop sr wtype] by simp
next
  assume "read_only_engine (lib self)"
  with assms show "fst (STFTWrapper_perform_stft f32 self
                   (snd (STFTWrapper_perform_stft f32 self st sig wsz hop sr wtype))
                   sig wsz hop sr wtype)
              = fst (STFTWrapper_perform_stft f32 self st sig wsz hop sr wtype)"
    by (rule method_idempotent)
next
  assume "\<not> passed_through (heap st) sig"
  then show "\<forall>a<length (heap st).
      heap (snd (STFTWrapper_perform_stft f32 self st sig wsz hop sr wtype)) ! a = heap st ! a"
    using method_heap_unchanged [OF assms, of self f32 wsz hop sr wtype] by simp
next
  assume ro: "\<forall>l. cdll lib_path = Some l \<longrightarrow> read_only_engine l"
  show "\<forall>a<length (heap st).
      heap (snd (perform_stft f32 cdll lib_path st sig wsz hop sr wtype)) ! a = heap st ! a"
  proof (cases "cdll lib_path")
    case None
    then show ?thesis by (simp add: perform_stft_def STFTWrapper_init_def)
  next
    case (Some l)
    with ro have "read_only_engine (lib \<lparr>lib = l\<rparr>)" by simp
    from method_heap_unchanged [OF assms, of "\<lparr>lib = l\<rparr>" f32 wsz hop sr wtype] this Some
    show ?thesis by (simp add: perform_stft_def STFTWrapper_init_def)
  qed
next
  assume ro: "\<forall>l. cdll lib_path = Some l \<longrightarrow> read_only_engine l"
  show "fst (perform_stft f32 cdll lib_path
                   (snd (perform_stft f32 cdll lib_path st sig wsz hop sr wtype))
                   sig wsz hop sr wtype)
              = fst (perform_stft f32 cdll lib_path st sig wsz hop sr wtype)"
  proof (cases "cdll lib_path")
    case None
    then show ?thesis by (simp add: perform_stft_def STFTWrapper_init_def)
  next
    case (Some l)
    with ro have "read_only_engine (lib \<lparr>lib = l\<rparr>)" by simp
    from method_idempotent [OF assms this, of f32 wsz hop sr wtype] Some
    show ?thesis by (simp add: perform_stft_def STFTWrapper_init_def)
  qed
qed

theorem caller_signal_not_mutated_witness:
  "valid_signal [\<lparr>dtype = Float32, c_contiguous = True, elems = [1, 2]\<rparr>] (NdArray 0)
   \<and> read_only_engine (fixture_lib (Ptr 1) (fixture_result True None) (Ptr 3))
   \<and> heap (snd (STFTWrapper_perform_stft id
        \<lparr>lib = fixture_lib (Ptr 1) (fixture_result True None) (Ptr 3)\<rparr>
        \<lparr>heap = [\<lparr>dtype = Float32, c_contiguous = True, elems = [1, 2]\<rparr>], calls = []\<rparr>
        (NdArray 0) 62 31 125 0)) ! 0
       = \<lparr>dtype = Float32, c_contiguous = True, elems = [1, 2]\<rparr>
   \<and> heap (snd (perform_stft id (\<lambda>path. Some (fixture_lib (Ptr 1) (fixture_result True None) (Ptr 3)))
        ''./libstft.so''
        \<lparr>heap = [\<lparr>dtype = Float32, c_contiguous = True, elems = [1, 2]\<rparr>], calls = []\<rparr>
        (NdArray 0) 62 31 125 0)) ! 0
       = \<lparr>dtype = Float32, c_contiguous = True, elems = [1, 2]\<rparr>
   \<and> valid_signal [\<lparr>dtype = Float64, c_contiguous = True, elems = [1, 2]\<rparr>] (NdArray 0)
   \<and> \<not> passed_through [\<lparr>dtype = Float64, c_contiguous = True, elems = [1, 2]\<rparr>] (NdArray 0)
   \<and> heap (snd (STFTWrapper_perform_stft id \<lparr>lib = overwriting_lib\<rparr>
        \<lparr>heap = [\<lparr>dtype = Float64, c_contiguous = True, elems = [1, 2]\<rparr>], calls = []\<rparr>
        (NdArray 0) 62 31 125 0)) ! 0
       = \<lparr>dtype = Float64, c_contiguous = True, elems = [1, 2]\<rparr>"
proof -
  have v: "valid_signal (heap \<lparr>heap = [\<lparr>dtype = Float32, c_contiguous = True, elems = [1, 2]\<rparr>],
                               calls = []\<rparr>) (NdArray 0)"
    by simp
  have ro: "read_only_engine (fixture_lib (Ptr 1) (fixture_result True None) (Ptr 3))"
    by (simp add: read_only_engine_def fixture_lib_def)
  have v': "valid_signal (heap \<lparr>heap = [\<lparr>dtype = Float64, c_contiguous = True, elems = [1, 2]\<rparr>],
                               calls = []\<rparr>) (NdArray 0)"
    by simp
  have np: "\<not> passed_through [\<lparr>dtype = Float64, c_contiguous = True, elems = [1, 2]\<rparr>] (NdArray 0)"
    by (simp add: passed_through_def)
  from caller_signal_not_mutated [OF v, of "\<lparr>lib = fixture_lib (Ptr 1) (fixture_result True None) (Ptr 3)\<rparr>"
      id 62 31 125 0 "\<lambda>path. Some (fixture_lib (Ptr 1) (fixture_result True None) (Ptr 3))"
      "''./libstft.so''"]
    caller_signal_not_mutated [OF v', of "\<lparr>lib = overwriting_lib\<rparr>" id 62 31 125 0]
    ro np
  show ?thesis
    by simp
qed

section \<open>Orientation of the saved CSV files\<close>

lemma grid_by_index:
  assumes "length g = nf" and "\<forall>f<nf. length (g ! f) = nb"
  shows "g = map (\<lambda>f. map (\<lambda>b. g ! f ! b) [0..<nb]) [0..<nf]"
  using assms by (auto simp: list_eq_iff_nth_eq)

lemma oracle_grid_cells:
  "length (db (magnitude (scipy_stft_layout coef nfreq nseg))) = nfreq
   \<and> (\<forall>k<nfreq. length (db (magnitude (scipy_stft_layout coef nfreq nseg)) ! k) = nseg
        \<and> (\<forall>m<nseg. db (magnitude (scipy_stft_layout coef nfreq nseg)) ! k ! m
                       = db_value (cmod (coef m k))))"
  by (simp add: db_def magnitude_def scipy_stft_layout_def)

lemma oracle_csv_lines:
  "oracle_csv fmt (scipy_stft_layout coef nfreq nseg)
     = concat (map (\<lambda>k. join '','' (map (\<lambda>m. fmt (db_value (cmod (coef m k)))) [0..<nseg])
                         @ [CHR 0x0A]) [0..<nfreq])"
  by (simp add: oracle_csv_def savetxt_def db_def magnitude_def scipy_stft_layout_def comp_def)

text \<open>
  Claim C5, as stated: the CSV of the wrapper has one row per line, comma-separated,
  and its row and column orientation matches that of the reference script's CSV. The
  second half fails: for one frame and two bins the wrapper writes one line of two
  cells, the reference script two lines of one cell.
\<close>

theorem csv_orientation_counterexample:
  "fst (STFTWrapper_perform_stft id
          \<lparr>lib = fixture_lib (Ptr 1) (fixture_result True None) (Ptr 3)\<rparr>
          \<lparr>heap = [], calls = []\<rparr> (PySeq [1, 2]) 62 31 125 0)
     = Inr (result_dict [[0, 1]] (fixture_result True None))
   \<and> wrapper_csv (\<lambda>x. ''x'') (result_dict [[0, 1]] (fixture_result True None))
       = Some (''x,x'' @ [CHR 0x0A])
   \<and> oracle_csv (\<lambda>x. ''x'') (scipy_stft_layout (\<lambda>m k. 0) 2 1)
       = ''x'' @ [CHR 0x0A] @ ''x'' @ [CHR 0x0A]
   \<and> wrapper_csv (\<lambda>x. ''x'') (result_dict [[0, 1]] (fixture_result True None))
       \<noteq> Some (oracle_csv (\<lambda>x. ''x'') (scipy_stft_layout (\<lambda>m k. 0) 2 1))"
  by (simp add: wrapper_defs wrapper_csv_def oracle_csv_def savetxt_def scipy_stft_layout_def
      db_def magnitude_def upt_conv_Cons)

text \<open>
  Claim C5, amended. Both files hold one row per line, the cells separated by commas.
  The wrapper's file has one line per time frame, holding that frame's frequency bins
  (the library's values \<^verbatim>\<open>power_ptr[frame][bin]\<close>); the reference script's file has one
  line per frequency bin, holding that bin's decibel values over the segments. The two
  orientations are transposed.
\<close>

theorem csv_rows_are_frames_oracle_rows_are_bins:
  assumes c: "call_engine f32 self st sig wsz hop sr wtype = ((rp, r), st1)"
    and ret: "fst (STFTWrapper_perform_stft f32 self st sig wsz hop sr wtype) = Inr d"
  shows "(\<exists>g. map_of d ''spectrogram'' = Some (PyArray2 Float32 g)
            \<and> length g = nat (frame_count r)
            \<and> (\<forall>f<nat (frame_count r).
                  length (g ! f) = nat (frequency_bin_count r)
                \<and> (\<forall>b<nat (frequency_bin_count r).
                     \<exists>row. snd (lib_get_power_spectrogram_db (lib self) rp r) f = Some row
                         \<and> g ! f ! b = row b))
            \<and> wrapper_csv fmt d
                = Some (concat (map (\<lambda>f. join '','' (map (\<lambda>b. fmt (g ! f ! b))
                                                       [0..<nat (frequency_bin_count r)])
                                          @ [CHR 0x0A]) [0..<nat (frame_count r)])))
       \<and> length (db (magnitude (scipy_stft_layout coef nfreq nseg))) = nfreq
       \<and> (\<forall>k<nfreq. length (db (magnitude (scipy_stft_layout coef nfreq nseg)) ! k) = nseg
            \<and> (\<forall>m<nseg. db (magnitude (scipy_stft_layout coef nfreq nseg)) ! k ! m
                           = db_value (cmod (coef m k))))
       \<and> oracle_csv fmt (scipy_stft_layout coef nfreq nseg)
           = concat (map (\<lambda>k. join '','' (map (\<lambda>m. fmt (db_value (cmod (coef m k)))) [0..<nseg])
                               @ [CHR 0x0A]) [0..<nfreq])"
proof -
  from ret obtain g where g: "build_spectrogram (frame_count r) (frequency_bin_count r)
                (snd (lib_get_power_spectrogram_db (lib self) rp r)) = Inr g"
    and d: "d = result_dict g r"
    by (auto simp: perform_unfold [OF c] split: if_splits sum.splits)
  note shape = build_spectrogram_Inr(3,4) [OF g]
  have sp: "map_of d ''spectrogram'' = Some (PyArray2 Float32 g)"
    by (simp add: d result_dict_def)
  have "g = map (\<lambda>f. map (\<lambda>b. g ! f ! b) [0..<nat (frequency_bin_count r)])
                [0..<nat (frame_count r)]"
    using shape by (intro grid_by_index) simp_all
  then have "savetxt fmt '','' g
      = savetxt fmt '','' (map (\<lambda>f. map (\<lambda>b. g ! f ! b) [0..<nat (frequency_bin_count r)])
                [0..<nat (frame_count r)])"
    by simp
  also have "\<dots> = concat (map (\<lambda>f. join '','' (map (\<lambda>b. fmt (g ! f ! b))
                                                       [0..<nat (frequency_bin_count r)])
                                          @ [CHR 0x0A]) [0..<nat (frame_count r)])"
    by (simp add: savetxt_def comp_def)
  finally have csv: "wrapper_csv fmt d
                = Some (concat (map (\<lambda>f. join '','' (map (\<lambda>b. fmt (g ! f ! b))
                                                       [0..<nat (frequency_bin_count r)])
                                          @ [CHR 0x0A]) [0..<nat (frame_count r)]))"
    by (simp add: wrapper_csv_def sp)
  from sp shape csv have "\<exists>g. map_of d ''spectrogram'' = Some (PyArray2 Float32 g)
            \<and> length g = nat (frame_count r)
            \<and> (\<forall>f<nat (frame_count r).
                  length (g ! f) = nat (frequency_bin_count r)
                \<and> (\<forall>b<nat (frequency_bin_count r).
                     \<exists>row. snd (lib_get_power_spectrogram_db (lib self) rp r) f = Some row
                         \<and> g ! f ! b = row b))
            \<and> wrapper_csv fmt d
                = Some (concat (map (\<lambda>f. join '','' (map (\<lambda>b. fmt (g ! f ! b))
                                                       [0..<nat (frequency_bin_count r)])
                                          @ [CHR 0x0A]) [0..<nat (frame_count r)]))"
    by (intro exI [of _ g]) simp
  with oracle_grid_cells [of coef nfreq nseg] oracle_csv_lines [of fmt coef nfreq nseg]
  show ?thesis by blast
qed

theorem csv_rows_are_frames_oracle_rows_are_bins_witness:
  "call_engine id \<lparr>lib = fixture_lib (Ptr 1) (fixture_result True None) (Ptr 3)\<rparr>
       \<lparr>heap = [], calls = []\<rparr> (PySeq [1, 2]) 62 31 125 0
     = ((Ptr 1, fixture_result True None),
        \<lparr>heap = [\<lparr>dtype = Float32, c_contiguous = True, elems = [1, 2]\<rparr>],
         calls = [Perform_stft \<lparr>dtype = Float32, c_contiguous = True, elems = [1, 2]\<rparr> 2
                    \<lparr>window_size = 62, hop_size = 31, sample_rate = 125, window_type = 0\<rparr>]\<rparr>)
   \<and> fst (STFTWrapper_perform_stft id
          \<lparr>lib = fixture_lib (Ptr 1) (fixture_result True None) (Ptr 3)\<rparr>
          \<lparr>heap = [], calls = []\<rparr> (PySeq [1, 2]) 62 31 125 0)
     = Inr (result_dict [[0, 1]] (fixture_result True None))
   \<and> wrapper_csv (\<lambda>x. if x = 0 then ''a'' else ''b'') (result_dict [[0, 1]] (fixture_result True None))
       = Some (''a,b'' @ [CHR 0x0A])
   \<and> length (db (magnitude (scipy_stft_layout (\<lambda>m k. of_nat k) 2 1))) = 2
   \<and> oracle_csv (\<lambda>x. ''x'') (scipy_stft_layout (\<lambda>m k. of_nat k) 2 1)
       = ''x'' @ [CHR 0x0A] @ ''x'' @ [CHR 0x0A]"
proof -
  have c: "call_engine id \<lparr>lib = fixture_lib (Ptr 1) (fixture_result True None) (Ptr 3)\<rparr>
       \<lparr>heap = [], calls = []\<rparr> (PySeq [1, 2]) 62 31 125 0
     = ((Ptr 1, fixture_result True None),
        \<lparr>heap = [\<lparr>dtype = Float32, c_contiguous = True, elems = [1, 2]\<rparr>],
         calls = [Perform_stft \<lparr>dtype = Float32, c_contiguous = True, elems = [1, 2]\<rparr> 2
                    \<lparr>window_size = 62, hop_size = 31, sample_rate = 125, window_type = 0\<rparr>]\<rparr>)"
    by (simp add: wrapper_defs)
  have ok: "fst (STFTWrapper_perform_stft id
            \<lparr>lib = fixture_lib (Ptr 1) (fixture_result True None) (Ptr 3)\<rparr>
            \<lparr>heap = [], calls = []\<rparr> (PySeq [1, 2]) 62 31 125 0)
       = Inr (result_dict [[0, 1]] (fixture_result True None))"
    by (simp add: wrapper_defs upt_conv_Cons)
  from csv_rows_are_frames_oracle_rows_are_bins [OF c ok,
      of "\<lambda>x. ''x''" "\<lambda>m k. of_nat k" 2 1]
  have o: "length (db (magnitude (scipy_stft_layout (\<lambda>m k. of_nat k) 2 1))) = 2
     \<and> oracle_csv (\<lambda>x. ''x'') (scipy_stft_layout (\<lambda>m k. of_nat k) 2 1)
       = ''x'' @ [CHR 0x0A] @ ''x'' @ [CHR 0x0A]"
    by (simp add: upt_conv_Cons)
  have w: "wrapper_csv (\<lambda>x. if x = 0 then ''a'' else ''b'')
             (result_dict [[0, 1]] (fixture_result True None)) = Some (''a,b'' @ [CHR 0x0A])"
    by (simp add: wrapper_csv_def result_dict_def savetxt_def)
  from c ok o w show ?thesis by simp
qed

section \<open>The engine's decibel grid against the reference script's\<close>

lemma dft_bin0: "dft xs 0 = of_real (sum_list xs)"
proof -
  have "dft xs 0 = (\<Sum>n<length xs. of_real (xs ! n))"
    by (simp add: dft_def)
  also have "\<dots> = of_real (\<Sum>n<length xs. xs ! n)"
    by simp
  also have "(\<Sum>n<length xs. xs ! n) = sum_list xs"
    by (simp add: sum_list_sum_nth atLeast0LessThan)
  finally show ?thesis .
qed

lemma segment_count:
  assumes "0 < H" and "H \<le> W"
  shows "(L - (W - H)) div H = nat (frame_count_of (int L) (int W) (int H))"
proof (cases "W \<le> L")
  case True
  have H: "0 < int H" using assms(1) by simp
  have "L - (W - H) = (L - W) + H" using True assms(2) by arith
  then have lhs: "(L - (W - H)) div H = (L - W) div H + 1"
    using assms(1) by (simp only: div_add_self2)
  have "int L - int W = int (L - W)" using True by (simp only: of_nat_diff)
  then have "(int L - int W) div int H = int ((L - W) div H)"
    by (simp only: zdiv_int)
  moreover have "frame_count_of (int L) (int W) (int H) = (int L - int W) div int H + 1"
    using True frame_count_closed [OF H, of "int L" "int W"] by simp
  ultimately have "frame_count_of (int L) (int W) (int H) = int ((L - W) div H + 1)"
    by simp
  then show ?thesis using lhs by simp
next
  case False
  have H: "0 < int H" using assms(1) by simp
  from False assms have "L - (W - H) < H" by arith
  then have "(L - (W - H)) div H = 0" by simp
  moreover have "frame_count_of (int L) (int W) (int H) = 0"
    using False frame_count_closed [OF H, of "int L" "int W"] by simp
  ultimately show ?thesis by simp
qed

lemma engine_cell:
  assumes "0 < H" and "m < nat (frame_count_of (int (length x)) (int (length w)) (int H))"
    and "k < length w div 2 + 1"
  shows "length (engine_spectrogram w x H)
           = nat (frame_count_of (int (length x)) (int (length w)) (int H))"
    and "length (engine_spectrogram w x H ! m) = length w div 2 + 1"
    and "engine_spectrogram w x H ! m ! k = dft (windowed w (frame x (m * H) (length w))) k"
proof -
  have off: "frame_offsets (int (length x)) (int (length w)) (int H)
      = map (\<lambda>k. int k * int H)
          [0..<nat (frame_count_of (int (length x)) (int (length w)) (int H))]"
  proof -
    have H: "0 < int H" using assms(1) by simp
    have "nat ((int (length x) - int (length w)) div int H + 1)
        = nat (frame_count_of (int (length x)) (int (length w)) (int H))"
    proof (cases "int (length w) \<le> int (length x)")
      case True
      then show ?thesis using H by (simp add: frame_count_closed)
    next
      case False
      then have "(int (length x) - int (length w)) div int H < 0"
        using H by (simp add: div_neg_pos_less0)
      with False show ?thesis using H by (simp add: frame_count_closed)
    qed
    then show ?thesis using frame_offsets_closed [OF H] by simp
  qed
  show "length (engine_spectrogram w x H)
           = nat (frame_count_of (int (length x)) (int (length w)) (int H))"
    by (simp add: engine_spectrogram_def off)
  have row: "engine_spectrogram w x H ! m = frame_spectrum w (frame x (m * H) (length w))"
    using assms(2) by (simp add: engine_spectrogram_def off nat_mult_distrib)
  show "length (engine_spectrogram w x H ! m) = length w div 2 + 1"
    by (simp add: row frame_spectrum_def)
  show "engine_spectrogram w x H ! m ! k = dft (windowed w (frame x (m * H) (length w))) k"
    using assms(3) by (simp add: row frame_spectrum_def del: upt_Suc)
qed

lemma oracle_cell:
  assumes "0 < H" and "H \<le> length w"
    and "m < nat (frame_count_of (int (length x)) (int (length w)) (int H))"
    and "k < length w div 2 + 1"
  shows "length (scipy_stft w x (length w - H)) = length w div 2 + 1"
    and "length (scipy_stft w x (length w - H) ! k)
           = nat (frame_count_of (int (length x)) (int (length w)) (int H))"
    and "scipy_stft w x (length w - H) ! k ! m
           = dft (windowed w (frame x (m * H) (length w))) k / of_real \<bar>sum_list w\<bar>"
proof -
  have step: "length w - (length w - H) = H" using assms(2) by simp
  have cnt: "(length x - (length w - H)) div H
               = nat (frame_count_of (int (length x)) (int (length w)) (int H))"
    using assms(1,2) by (rule segment_count)
  show "length (scipy_stft w x (length w - H)) = length w div 2 + 1"
    by (simp add: scipy_stft_def scipy_stft_layout_def)
  show "length (scipy_stft w x (length w - H) ! k)
           = nat (frame_count_of (int (length x)) (int (length w)) (int H))"
    using assms(4) by (simp add: scipy_stft_def scipy_stft_layout_def step cnt del: upt_Suc)
  show "scipy_stft w x (length w - H) ! k ! m
           = dft (windowed w (frame x (m * H) (length w))) k / of_real \<bar>sum_list w\<bar>"
    using assms(3,4) by (simp add: scipy_stft_def scipy_stft_layout_def step cnt del: upt_Suc)
qed

lemma db_gap:
  assumes "15 \<le> S" and "1 \<le> a"
  shows "db_value a - db_value (a / S) > 20"
proof -
  define b where "b = a / S + 1 / 10 ^ 10"
  have bpos: "0 < b" using assms by (simp add: b_def add_pos_nonneg)
  have "a / S \<le> a / 15" using assms by (intro divide_left_mono) simp_all
  then have "10 * b \<le> 10 * (a / 15) + 1 / 10 ^ 9" by (simp add: b_def)
  also have "\<dots> < a + 1 / 10 ^ 10" using assms(2) by simp
  finally have lt: "10 * b < a + 1 / 10 ^ 10" .
  have "1 + log 10 b = log 10 (10 * b)"
    using bpos by (simp add: log_mult)
  also have "\<dots> < log 10 (a + 1 / 10 ^ 10)"
    using lt bpos by simp
  finally have "1 + log 10 b < log 10 (a + 1 / 10 ^ 10)" .
  then show ?thesis by (simp add: db_value_def b_def)
qed

lemma cos_nonpos:
  assumes "pi / 2 \<le> t" and "t \<le> 3 * pi / 2"
  shows "cos t \<le> 0"
proof -
  have "0 \<le> cos (t - pi)"
    using assms by (intro cos_ge_zero) simp_all
  then show ?thesis by simp
qed

lemma half_sum_bound:
  fixes f :: "nat \<Rightarrow> real"
  assumes nonneg: "\<And>n. 0 \<le> f n"
    and mid: "\<And>n. 16 \<le> n \<Longrightarrow> n < 46 \<Longrightarrow> 1 / 2 \<le> f n"
  shows "15 \<le> sum_list (map f [0..<62])"
proof -
  have "(15::real) = (\<Sum>n\<in>{16..<46::nat}. 1 / 2)" by simp
  also have "\<dots> \<le> (\<Sum>n\<in>{16..<46::nat}. f n)"
  proof (rule sum_mono)
    fix n :: nat
    assume "n \<in> {16..<46}"
    then have "16 \<le> n" and "n < 46" by simp_all
    then show "1 / 2 \<le> f n" by (rule mid)
  qed
  also have "\<dots> \<le> (\<Sum>n\<in>{0..<62::nat}. f n)"
    by (intro sum_mono2) (auto simp: nonneg)
  also have "\<dots> = sum_list (map f [0..<62])"
    by (simp only: interv_sum_list_conv_sum_set_nat set_upt)
  finally show ?thesis .
qed

lemma hann_window_62_sum: "15 \<le> sum_list (hann_window 62)"
proof -
  have "15 \<le> sum_list (map (\<lambda>n. 0.5 * (1 - cos (2 * pi * real n / real (62 - 1)))) [0..<62])"
  proof (rule half_sum_bound)
    fix n :: nat
    have "cos (2 * pi * real n / real (62 - 1)) \<le> 1" by (rule cos_le_one)
    then show "0 \<le> 0.5 * (1 - cos (2 * pi * real n / real (62 - 1)))" by simp
  next
    fix n :: nat
    assume n: "16 \<le> n" "n < 46"
    then have "16 \<le> real n" and "real n \<le> 45" by simp_all
    then have "pi / 2 \<le> 2 * pi * real n / real (62 - 1)"
      and "2 * pi * real n / real (62 - 1) \<le> 3 * pi / 2"
      by (simp_all add: field_simps)
    then have "cos (2 * pi * real n / real (62 - 1)) \<le> 0" by (rule cos_nonpos)
    then show "1 / 2 \<le> 0.5 * (1 - cos (2 * pi * real n / real (62 - 1)))" by simp
  qed
  moreover have "(62::nat) \<noteq> 1" by simp
  ultimately show ?thesis unfolding hann_window_def by (simp only: if_False)
qed

lemma scipy_hann_62_sum: "15 \<le> sum_list (scipy_hann 62)"
proof -
  have "15 \<le> sum_list (map (\<lambda>n. 0.5 - 0.5 * cos (2 * pi * real n / real (62::nat))) [0..<62])"
  proof (rule half_sum_bound)
    fix n :: nat
    have "cos (2 * pi * real n / real (62::nat)) \<le> 1" by (rule cos_le_one)
    then show "0 \<le> 0.5 - 0.5 * cos (2 * pi * real n / real (62::nat))" by simp
  next
    fix n :: nat
    assume n: "16 \<le> n" "n < 46"
    then have "16 \<le> real n" and "real n \<le> 45" by simp_all
    then have "pi / 2 \<le> 2 * pi * real n / real (62::nat)"
      and "2 * pi * real n / real (62::nat) \<le> 3 * pi / 2"
      by (simp_all add: field_simps)
    then have "cos (2 * pi * real n / real (62::nat)) \<le> 0" by (rule cos_nonpos)
    then show "1 / 2 \<le> 0.5 - 0.5 * cos (2 * pi * real n / real (62::nat))" by simp
  qed
  then show ?thesis unfolding scipy_hann_def .
qed

lemma windowed_ones: "length w = n \<Longrightarrow> windowed w (replicate n 1) = w"
  by (simp add: windowed_def list_eq_iff_nth_eq)

lemma first_frame_exists:
  "0 < H \<Longrightarrow> W \<le> L \<Longrightarrow> 0 < nat (frame_count_of (int L) (int W) (int H))"
  by (simp add: frame_count_closed pos_imp_zdiv_nonneg_iff)

lemma constant_signal_engine_cell:
  assumes "0 < H" and "length w \<le> L"
  shows "engine_spectrogram w (replicate L 1) H ! 0 ! 0 = of_real (sum_list w)"
proof -
  have m: "0 < nat (frame_count_of (int (length (replicate L (1::real)))) (int (length w)) (int H))"
    using first_frame_exists [OF assms] by simp
  have "engine_spectrogram w (replicate L 1) H ! 0 ! 0
      = dft (windowed w (frame (replicate L 1) (0 * H) (length w))) 0"
    by (rule engine_cell(3) [OF assms(1) m]) simp
  also have "frame (replicate L (1::real)) (0 * H) (length w) = replicate (length w) 1"
    using assms(2) by (simp add: frame_def min_def)
  finally show ?thesis by (simp add: windowed_ones dft_bin0)
qed

lemma constant_signal_oracle_cell:
  assumes "0 < H" and "H \<le> length w" and "length w \<le> L" and "0 < sum_list w"
  shows "scipy_stft w (replicate L 1) (length w - H) ! 0 ! 0 = 1"
proof -
  have m: "0 < nat (frame_count_of (int (length (replicate L (1::real)))) (int (length w)) (int H))"
    using first_frame_exists [OF assms(1,3)] by simp
  have "scipy_stft w (replicate L 1) (length w - H) ! 0 ! 0
      = dft (windowed w (frame (replicate L 1) (0 * H) (length w))) 0 / of_real \<bar>sum_list w\<bar>"
    by (rule oracle_cell(3) [OF assms(1,2) m]) simp
  also have "frame (replicate L (1::real)) (0 * H) (length w) = replicate (length w) 1"
    using assms(3) by (simp add: frame_def min_def)
  finally show ?thesis using assms(4) by (simp add: windowed_ones dft_bin0)
qed

lemma db_value_ge_20: "10 \<le> a \<Longrightarrow> 20 \<le> db_value a"
proof -
  assume a: "10 \<le> a"
  have "log 10 10 \<le> log 10 (a + 1 / 10 ^ 10)"
    using a by (subst log_le_cancel_iff) simp_all
  then show ?thesis by (simp add: db_value_def)
qed

lemma db_value_one: "0 \<le> db_value 1" "db_value 1 \<le> 10"
proof -
  have "log 10 1 \<le> log 10 (1 + 1 / 10 ^ 10)"
    by (subst log_le_cancel_iff) simp_all
  then show "0 \<le> db_value 1" by (simp add: db_value_def)
  have "log 10 (2 ^ 2) = real 2 * log 10 2"
    by (rule log_nat_power) simp
  moreover have "log 10 (2 ^ 2) \<le> log 10 10"
    by (subst log_le_cancel_iff) simp_all
  ultimately have two: "log 10 2 \<le> 1 / 2" by simp
  have "log 10 (1 + 1 / 10 ^ 10) \<le> log 10 2"
    by (subst log_le_cancel_iff) simp_all
  from this two have "log 10 (1 + 1 / 10 ^ 10) \<le> 1 / 2"
    by (rule order_trans)
  then show "db_value 1 \<le> 10" by (simp add: db_value_def)
qed

lemma constant_signal_engine_db:
  assumes "0 < H" and "length w \<le> L" and "0 \<le> sum_list w"
  shows "engine_db w (replicate L 1) H ! 0 ! 0 = db_value (sum_list w)"
    and "0 < length (engine_db w (replicate L 1) H)"
    and "0 < length (engine_db w (replicate L 1) H ! 0)"
proof -
  have m: "0 < nat (frame_count_of (int (length (replicate L (1::real)))) (int (length w)) (int H))"
    using first_frame_exists [OF assms(1,2)] by simp
  have k: "0 < length w div 2 + 1" by simp
  note E = engine_cell [OF assms(1) m k]
  have rows: "0 < length (engine_spectrogram w (replicate L 1) H)"
    using E(1) m by simp
  have cols: "0 < length (engine_spectrogram w (replicate L 1) H ! 0)"
    using E(2) by simp
  show "0 < length (engine_db w (replicate L 1) H)"
    using rows by (simp add: engine_db_def)
  show "0 < length (engine_db w (replicate L 1) H ! 0)"
    using rows cols by (simp add: engine_db_def)
  have "engine_db w (replicate L 1) H ! 0 ! 0
      = db_value (cmod (engine_spectrogram w (replicate L 1) H ! 0 ! 0))"
    using rows cols by (simp add: engine_db_def)
  also have "engine_spectrogram w (replicate L 1) H ! 0 ! 0 = of_real (sum_list w)"
    using assms(1,2) by (rule constant_signal_engine_cell)
  finally show "engine_db w (replicate L 1) H ! 0 ! 0 = db_value (sum_list w)"
    using assms(3) by simp
qed

lemma constant_signal_oracle_db:
  assumes "0 < H" and "H \<le> length w" and "length w \<le> L" and "0 < sum_list w"
  shows "db (magnitude (scipy_stft w (replicate L 1) (length w - H))) ! 0 ! 0 = db_value 1"
proof -
  have m: "0 < nat (frame_count_of (int (length (replicate L (1::real)))) (int (length w)) (int H))"
    using first_frame_exists [OF assms(1,3)] by simp
  have k: "0 < length w div 2 + 1" by simp
  note O = oracle_cell [OF assms(1,2) m k]
  have rows: "0 < length (scipy_stft w (replicate L 1) (length w - H))"
    using O(1) by simp
  have cols: "0 < length (scipy_stft w (replicate L 1) (length w - H) ! 0)"
    using O(2) m by simp
  have "db (magnitude (scipy_stft w (replicate L 1) (length w - H))) ! 0 ! 0
      = db_value (cmod (scipy_stft w (replicate L 1) (length w - H) ! 0 ! 0))"
    using rows cols by (simp add: db_def magnitude_def)
  also have "scipy_stft w (replicate L 1) (length w - H) ! 0 ! 0 = 1"
    using assms by (rule constant_signal_oracle_cell)
  finally show ?thesis by simp
qed

lemma constant_signal_cells:
  "20 \<le> engine_db_grid (replicate 250 1)
            \<lparr>window_size = 62, hop_size = 31, sample_rate = 125, window_type = 0\<rparr> ! 0 ! 0"
  "0 \<le> reference_db (replicate 250 1) ! 0 ! 0"
  "reference_db (replicate 250 1) ! 0 ! 0 \<le> 10"
  "0 < length (engine_db_grid (replicate 250 1)
            \<lparr>window_size = 62, hop_size = 31, sample_rate = 125, window_type = 0\<rparr>)"
  "0 < length (engine_db_grid (replicate 250 1)
            \<lparr>window_size = 62, hop_size = 31, sample_rate = 125, window_type = 0\<rparr> ! 0)"
proof -
  have lw: "length (hann_window 62) = 62" unfolding hann_window_def by simp
  have ls: "length (scipy_hann 62) = 62" unfolding scipy_hann_def by simp
  have sw: "0 \<le> sum_list (hann_window 62)" using hann_window_62_sum by simp
  have ss: "0 < sum_list (scipy_hann 62)" using scipy_hann_62_sum by simp
  have grid: "engine_db_grid (replicate 250 1)
            \<lparr>window_size = 62, hop_size = 31, sample_rate = 125, window_type = 0\<rparr>
        = engine_db (hann_window 62) (replicate 250 1) 31"
    by (simp add: engine_db_grid_def)
  have H: "0 < (31::nat)" by simp
  have L: "length (hann_window 62) \<le> 250" by (simp add: lw)
  note E = constant_signal_engine_db [OF H L sw]
  have "(10::real) \<le> sum_list (hann_window 62)" using hann_window_62_sum by simp
  then have "20 \<le> db_value (sum_list (hann_window 62))" by (rule db_value_ge_20)
  then show "20 \<le> engine_db_grid (replicate 250 1)
            \<lparr>window_size = 62, hop_size = 31, sample_rate = 125, window_type = 0\<rparr> ! 0 ! 0"
    by (simp only: grid E(1))
  show "0 < length (engine_db_grid (replicate 250 1)
            \<lparr>window_size = 62, hop_size = 31, sample_rate = 125, window_type = 0\<rparr>)"
    using E(2) by (simp only: grid)
  show "0 < length (engine_db_grid (replicate 250 1)
            \<lparr>window_size = 62, hop_size = 31, sample_rate = 125, window_type = 0\<rparr> ! 0)"
    using E(3) by (simp only: grid)
  have Hs: "(31::nat) \<le> length (scipy_hann 62)" by (simp add: ls)
  have Ls: "length (scipy_hann 62) \<le> 250" by (simp add: ls)
  have "db (magnitude (scipy_stft (scipy_hann 62) (replicate 250 1) (length (scipy_hann 62) - 31)))
          ! 0 ! 0 = db_value 1"
    using H Hs Ls ss by (rule constant_signal_oracle_db)
  then have o: "reference_db (replicate 250 1) ! 0 ! 0 = db_value 1"
    by (simp add: reference_db_def reference_stft_def ls)
  show "0 \<le> reference_db (replicate 250 1) ! 0 ! 0"
    and "reference_db (replicate 250 1) ! 0 ! 0 \<le> 10"
    using db_value_one by (simp_all only: o)
qed

text \<open>
  Claim C4, as stated: for the same signal and configuration the decibel grid of the
  engine (unscaled, sum-based transform) and the decibel grid of the reference script
  agree cell by cell within a small relative tolerance such as \<open>1e-3\<close>, once the
  orientation is accounted for. This fails: for the constant signal of 250 samples of
  value 1 and the configuration of the scenario, the cell of frame 0 and bin 0 is at
  least 10 dB higher in the engine's grid than in the script's.
\<close>

theorem db_grids_disagree_counterexample:
  "\<not> grids_agree (1 / 1000)
       (engine_db_grid (replicate 250 1)
          \<lparr>window_size = 62, hop_size = 31, sample_rate = 125, window_type = 0\<rparr>)
       (reference_db (replicate 250 1))
   \<and> 10 \<le> engine_db_grid (replicate 250 1)
            \<lparr>window_size = 62, hop_size = 31, sample_rate = 125, window_type = 0\<rparr> ! 0 ! 0
          - reference_db (replicate 250 1) ! 0 ! 0"
proof -
  define e where "e = engine_db_grid (replicate 250 1)
            \<lparr>window_size = 62, hop_size = 31, sample_rate = 125, window_type = 0\<rparr>"
  define r where "r = reference_db (replicate 250 1)"
  note c = constant_signal_cells [folded e_def r_def]
  from c(1,3) have gap: "10 \<le> e ! 0 ! 0 - r ! 0 ! 0" by simp
  from c(1,2,3) have far: "\<not> \<bar>e ! 0 ! 0 - r ! 0 ! 0\<bar> \<le> 1 / 1000 * \<bar>r ! 0 ! 0\<bar>" by simp
  have "\<not> grids_agree (1 / 1000) e r"
  proof
    assume "grids_agree (1 / 1000) e r"
    with c(4,5) have "\<bar>e ! 0 ! 0 - r ! 0 ! 0\<bar> \<le> 1 / 1000 * \<bar>r ! 0 ! 0\<bar>"
      unfolding grids_agree_def by blast
    with far show False ..
  qed
  with gap show ?thesis unfolding e_def r_def by simp
qed

text \<open>
  Claim C4, amended. For the same signal, hop size and window weights \<open>w\<close> of
  positive sum, the two grids have the same cells in transposed orientation (frames by
  bins against bins by segments, with as many segments as frames), and they agree up
  to the reference's normalization, not within a tolerance: at every frame and bin the
  engine's magnitude is the sum of the window times the reference's magnitude, so the
  engine's decibel value is that of the scaled magnitude. Where the window sums to 15
  or more (as both Hann windows of size 62 do) and the engine's magnitude is at least
  1, the engine's decibel value exceeds the reference's by more than 20.
\<close>

theorem engine_is_window_sum_times_oracle:
  assumes "0 < H" and "H \<le> length w" and "0 < sum_list w"
    and "m < nat (frame_count_of (int (length x)) (int (length w)) (int H))"
    and "k < length w div 2 + 1"
  shows "length (engine_db w x H) = nat (frame_count_of (int (length x)) (int (length w)) (int H))
       \<and> length (engine_db w x H ! m) = length w div 2 + 1
       \<and> length (db (magnitude (scipy_stft w x (length w - H)))) = length w div 2 + 1
       \<and> length (db (magnitude (scipy_stft w x (length w - H))) ! k)
            = nat (frame_count_of (int (length x)) (int (length w)) (int H))
       \<and> cmod (engine_spectrogram w x H ! m ! k)
            = sum_list w * cmod (scipy_stft w x (length w - H) ! k ! m)
       \<and> engine_db w x H ! m ! k
            = db_value (sum_list w * cmod (scipy_stft w x (length w - H) ! k ! m))
       \<and> db (magnitude (scipy_stft w x (length w - H))) ! k ! m
            = db_value (cmod (scipy_stft w x (length w - H) ! k ! m))
       \<and> (15 \<le> sum_list w \<and> 1 \<le> cmod (engine_spectrogram w x H ! m ! k) \<longrightarrow>
            engine_db w x H ! m ! k - db (magnitude (scipy_stft w x (length w - H))) ! k ! m > 20)"
proof -
  note E = engine_cell [OF assms(1,4,5)]
  note O = oracle_cell [OF assms(1,2,4,5)]
  let ?e = "engine_spectrogram w x H ! m ! k"
  let ?o = "scipy_stft w x (length w - H) ! k ! m"
  have o: "?o = ?e / of_real (sum_list w)"
    using O(3) E(3) assms(3) by simp
  have mag: "cmod ?e = sum_list w * cmod ?o"
    using assms(3) by (simp add: o norm_divide)
  have omag: "cmod ?o = cmod ?e / sum_list w"
    using assms(3) by (simp add: o norm_divide)
  have edb: "engine_db w x H ! m ! k = db_value (cmod ?e)"
    using E assms(4,5) by (simp add: engine_db_def)
  have odb: "db (magnitude (scipy_stft w x (length w - H))) ! k ! m = db_value (cmod ?o)"
    using O assms(4,5) by (simp add: db_def magnitude_def)
  have gap: "engine_db w x H ! m ! k - db (magnitude (scipy_stft w x (length w - H))) ! k ! m > 20"
    if "15 \<le> sum_list w" and "1 \<le> cmod ?e"
    using db_gap [OF that] by (simp add: edb odb omag)
  have l1: "length (engine_db w x H) = nat (frame_count_of (int (length x)) (int (length w)) (int H))"
    using E(1) by (simp add: engine_db_def)
  have l2: "length (engine_db w x H ! m) = length w div 2 + 1"
    using E(1,2) assms(4) by (simp add: engine_db_def)
  have l3: "length (db (magnitude (scipy_stft w x (length w - H)))) = length w div 2 + 1"
    using O(1) by (simp add: db_def magnitude_def)
  have l4: "length (db (magnitude (scipy_stft w x (length w - H))) ! k)
            = nat (frame_count_of (int (length x)) (int (length w)) (int H))"
    using O(1,2) assms(5) by (simp add: db_def magnitude_def)
  from l1 l2 l3 l4 mag edb odb gap show ?thesis
    by (simp add: mag)
qed

theorem engine_is_window_sum_times_oracle_witness:
  "(0::nat) < 8 \<and> 8 \<le> length (replicate 16 (1::real))
   \<and> 15 \<le> sum_list (replicate 16 (1::real))
   \<and> (0::nat) < nat (frame_count_of 16 16 8)
   \<and> cmod (engine_spectrogram (replicate 16 1) (replicate 16 1) 8 ! 0 ! 0) = 16
   \<and> cmod (scipy_stft (replicate 16 1) (replicate 16 1) 8 ! 0 ! 0) = 1
   \<and> engine_db (replicate 16 1) (replicate 16 1) 8 ! 0 ! 0
         - db (magnitude (scipy_stft (replicate 16 1) (replicate 16 1) 8)) ! 0 ! 0 > 20"
proof -
  have H: "(0::nat) < 8" and W: "8 \<le> length (replicate 16 (1::real))"
    and S: "0 < sum_list (replicate 16 (1::real))" and S15: "15 \<le> sum_list (replicate 16 (1::real))"
    by (simp_all add: sum_list_replicate)
  have fc: "frame_count_of 16 16 8 = 1"
    by (simp add: frame_count_closed)
  have m: "0 < nat (frame_count_of (int (length (replicate 16 (1::real))))
                      (int (length (replicate 16 (1::real)))) (int 8))"
    by (simp add: fc)
  have k: "0 < length (replicate 16 (1::real)) div 2 + 1" by simp
  have "engine_spectrogram (replicate 16 1) (replicate 16 1) 8 ! 0 ! 0
          = of_real (sum_list (replicate 16 (1::real)))"
    by (rule constant_signal_engine_cell) simp_all
  then have e: "cmod (engine_spectrogram (replicate 16 1) (replicate 16 1) 8 ! 0 ! 0) = 16"
    by (simp add: sum_list_replicate)
  let ?w = "replicate 16 (1::real)"
  note T = engine_is_window_sum_times_oracle [OF H W S m k]
  from T have "cmod (engine_spectrogram ?w ?w 8 ! 0 ! 0)
      = sum_list ?w * cmod (scipy_stft ?w ?w (length ?w - 8) ! 0 ! 0)"
    by (elim conjE)
  with e have o: "cmod (scipy_stft (replicate 16 1) (replicate 16 1) 8 ! 0 ! 0) = 1"
    by (simp add: sum_list_replicate)
  from T have "15 \<le> sum_list ?w \<and> 1 \<le> cmod (engine_spectrogram ?w ?w 8 ! 0 ! 0) \<longrightarrow>
      engine_db ?w ?w 8 ! 0 ! 0 - db (magnitude (scipy_stft ?w ?w (length ?w - 8))) ! 0 ! 0 > 20"
    by (elim conjE)
  with e S15 have gap: "engine_db (replicate 16 1) (replicate 16 1) 8 ! 0 ! 0
         - db (magnitude (scipy_stft (replicate 16 1) (replicate 16 1) 8)) ! 0 ! 0 > 20"
    by simp
  from W S15 e o gap show ?thesis by (simp add: fc)
qed

end
